theory Spec2Isabelle
  imports Main "HOL-Library.Word"
begin

section \<open>The SQL dialect of the storage engine\<close>

text \<open>
  \<^verbatim>\<open>libpod/sqlite_state.go\<close> talks to SQLite through \<^verbatim>\<open>database/sql\<close>: every
  operation hands a statement text and its parameters to the engine. The engine is
  not part of the repository, so this section models the fragment of its dialect
  that the statements of the file are written in: the tokens, the statement shapes
  \<^verbatim>\<open>SELECT\<close>, \<^verbatim>\<open>INSERT\<close>, \<^verbatim>\<open>UPDATE\<close>, \<^verbatim>\<open>DELETE\<close>, and the \<^verbatim>\<open>LIKE\<close> operator.
  The statement texts themselves are taken from the source character by character.
\<close>

subsection \<open>Characters\<close>

definition ascii_upper :: "char \<Rightarrow> char" where
  "ascii_upper c =
     (let n = (of_char c :: nat) in if 97 \<le> n \<and> n \<le> 122 then char_of (n - 32) else c)"

definition is_space :: "char \<Rightarrow> bool" where
  "is_space c = ((of_char c :: nat) \<in> set [32, 9, 10, 12, 13])"

definition is_digit :: "char \<Rightarrow> bool" where
  "is_digit c = (let n = (of_char c :: nat) in 48 \<le> n \<and> n \<le> 57)"

definition is_word_char :: "char \<Rightarrow> bool" where
  \<comment> \<open>SQLite's identifier characters: letters, digits, \<open>_\<close>, \<open>$\<close> and bytes from 0x80.\<close>
  "is_word_char c =
     (let n = (of_char c :: nat) in
        (48 \<le> n \<and> n \<le> 57) \<or> (65 \<le> n \<and> n \<le> 90) \<or> (97 \<le> n \<and> n \<le> 122)
        \<or> n = 95 \<or> n = 36 \<or> 128 \<le> n)"

subsection \<open>Tokens\<close>

datatype token =
    TWord string | TParam | TEq | TLe | TLParen | TRParen | TComma | TSemi | TDot
  | TOther char

definition symbol :: "char \<Rightarrow> token" where
  "symbol c =
     (if c = CHR ''?'' then TParam
      else if c = CHR ''='' then TEq
      else if c = CHR ''('' then TLParen
      else if c = CHR '')'' then TRParen
      else if c = CHR '','' then TComma
      else if c = CHR '';'' then TSemi
      else if c = CHR ''.'' then TDot
      else TOther c)"

fun flush :: "string \<Rightarrow> token list" where
  "flush [] = []"
| "flush w = [TWord w]"

text \<open>The tokenizer; \<open>w\<close> is the word read so far.\<close>

fun lex :: "string \<Rightarrow> string \<Rightarrow> token list" where
  "lex w [] = flush w"
| "lex w [c] =
     (if is_word_char c then flush (w @ [c])
      else flush w @ (if is_space c then [] else [symbol c]))"
| "lex w (c # d # cs) =
     (if is_word_char c then lex (w @ [c]) (d # cs)
      else if c = CHR ''<'' \<and> d = CHR ''='' then flush w @ TLe # lex [] cs
      else flush w @ (if is_space c then [] else [symbol c]) @ lex [] (d # cs))"

text \<open>
  The keywords that SQLite never accepts as a name (its parser has no fallback to
  an identifier for them). \<^verbatim>\<open>TABLE\<close> is one of them.
\<close>

definition reserved_words :: "string list" where
  "reserved_words =
     [''ADD'', ''ALL'', ''ALTER'', ''AND'', ''AS'', ''AUTOINCREMENT'', ''BETWEEN'',
      ''CASE'', ''CHECK'', ''COLLATE'', ''COMMIT'', ''CONSTRAINT'', ''CREATE'',
      ''DEFAULT'', ''DEFERRABLE'', ''DELETE'', ''DISTINCT'', ''DROP'', ''ELSE'',
      ''ESCAPE'', ''EXCEPT'', ''EXISTS'', ''FOREIGN'', ''FROM'', ''GROUP'', ''HAVING'',
      ''IN'', ''INDEX'', ''INSERT'', ''INTERSECT'', ''INTO'', ''IS'', ''ISNULL'',
      ''JOIN'', ''LIMIT'', ''NOT'', ''NOTHING'', ''NOTNULL'', ''NULL'', ''ON'', ''OR'',
      ''ORDER'', ''PRIMARY'', ''REFERENCES'', ''RETURNING'', ''SELECT'', ''SET'',
      ''TABLE'', ''THEN'', ''TO'', ''TRANSACTION'', ''UNION'', ''UNIQUE'', ''UPDATE'',
      ''USING'', ''VALUES'', ''WHEN'', ''WHERE'']"

definition is_kw :: "string \<Rightarrow> token \<Rightarrow> bool" where
  "is_kw k t = (case t of TWord w \<Rightarrow> map ascii_upper w = k | _ \<Rightarrow> False)"

definition is_name :: "token \<Rightarrow> bool" where
  "is_name t =
     (case t of
        TWord w \<Rightarrow>
          (case w of [] \<Rightarrow> False | c # _ \<Rightarrow> \<not> is_digit c)
          \<and> map ascii_upper w \<notin> set reserved_words
      | _ \<Rightarrow> False)"

subsection \<open>Statements\<close>

fun split_on :: "('a \<Rightarrow> bool) \<Rightarrow> 'a list \<Rightarrow> 'a list list" where
  "split_on P [] = [[]]"
| "split_on P (x # xs) =
     (if P x then [] # split_on P xs
      else (case split_on P xs of [] \<Rightarrow> [[x]] | g # gs \<Rightarrow> (x # g) # gs))"

fun column_ref :: "token list \<Rightarrow> bool" where
  "column_ref [c] = is_name c"
| "column_ref [t, d, c] = (is_name t \<and> d = TDot \<and> is_name c)"
| "column_ref _ = False"

definition cmp_op :: "token \<Rightarrow> bool" where
  "cmp_op t = (t = TEq \<or> t = TLe \<or> is_kw ''LIKE'' t)"

text \<open>
  A \<^verbatim>\<open>WHERE\<close> expression of the fragment: comparisons of a column with a parameter,
  joined by \<^verbatim>\<open>OR\<close> or \<^verbatim>\<open>AND\<close>, with parentheses. The recognizer is an automaton
  over the tokens; \<open>d\<close> counts the open parentheses.
\<close>

datatype wstate = Operand | AfterName | AfterDot | AfterColumn | AfterOp | AfterAtom

fun where_expr :: "nat \<Rightarrow> wstate \<Rightarrow> token list \<Rightarrow> bool" where
  "where_expr d st [] = (d = 0 \<and> st = AfterAtom)"
| "where_expr d st (t # ts) =
     (case st of
        Operand \<Rightarrow>
          if t = TLParen then where_expr (Suc d) Operand ts
          else is_name t \<and> where_expr d AfterName ts
      | AfterName \<Rightarrow>
          if t = TDot then where_expr d AfterDot ts
          else cmp_op t \<and> where_expr d AfterOp ts
      | AfterDot \<Rightarrow> is_name t \<and> where_expr d AfterColumn ts
      | AfterColumn \<Rightarrow> cmp_op t \<and> where_expr d AfterOp ts
      | AfterOp \<Rightarrow> t = TParam \<and> where_expr d AfterAtom ts
      | AfterAtom \<Rightarrow>
          if t = TRParen then 0 < d \<and> where_expr (d - 1) AfterAtom ts
          else (is_kw ''OR'' t \<or> is_kw ''AND'' t) \<and> where_expr d Operand ts)"

definition where_clause :: "token list \<Rightarrow> bool" where
  "where_clause ts =
     (case ts of [] \<Rightarrow> True | w # e \<Rightarrow> is_kw ''WHERE'' w \<and> where_expr 0 Operand e)"

definition from_clause :: "token list \<Rightarrow> bool" where
  "from_clause ts =
     (case ts of
        f # tbl # more \<Rightarrow> is_kw ''FROM'' f \<and> is_name tbl \<and> where_clause more
      | _ \<Rightarrow> False)"

definition select_ok :: "token list \<Rightarrow> bool" where
  "select_ok ts =
     (let cols = takeWhile (\<lambda>t. \<not> is_kw ''FROM'' t) ts;
          rest = dropWhile (\<lambda>t. \<not> is_kw ''FROM'' t) ts
      in list_all column_ref (split_on (\<lambda>t. t = TComma) cols) \<and> from_clause rest)"

definition insert_ok :: "token list \<Rightarrow> bool" where
  "insert_ok ts =
     (case ts of
        i # tbl # v # lp # more \<Rightarrow>
          is_kw ''INTO'' i \<and> is_name tbl \<and> is_kw ''VALUES'' v \<and> lp = TLParen
          \<and> more \<noteq> [] \<and> last more = TRParen
          \<and> list_all (\<lambda>g. g = [TParam]) (split_on (\<lambda>t. t = TComma) (butlast more))
      | _ \<Rightarrow> False)"

definition update_ok :: "token list \<Rightarrow> bool" where
  \<comment> \<open>\<^verbatim>\<open>UPDATE table SET column = ? [WHERE ...]\<close>: the table name follows \<^verbatim>\<open>UPDATE\<close> directly.\<close>
  "update_ok ts =
     (case ts of
        tbl # s # col # e # p # more \<Rightarrow>
          is_name tbl \<and> is_kw ''SET'' s \<and> is_name col \<and> e = TEq \<and> p = TParam
          \<and> where_clause more
      | _ \<Rightarrow> False)"

definition strip_semi :: "token list \<Rightarrow> token list" where
  "strip_semi ts = (if ts \<noteq> [] \<and> last ts = TSemi then butlast ts else ts)"

definition statement_ok :: "token list \<Rightarrow> bool" where
  "statement_ok ts =
     (case ts of
        [] \<Rightarrow> False
      | k # r \<Rightarrow>
          if is_kw ''SELECT'' k then select_ok r
          else if is_kw ''INSERT'' k then insert_ok r
          else if is_kw ''UPDATE'' k then update_ok r
          else if is_kw ''DELETE'' k then from_clause r
          else False)"

definition sqlite_prepare :: "string \<Rightarrow> bool" where
  \<comment> \<open>Whether the engine compiles the statement text; otherwise it reports a syntax error.\<close>
  "sqlite_prepare sql = statement_ok (strip_semi (lex [] sql))"

subsection \<open>The LIKE operator\<close>

text \<open>
  \<open>sqlite_like p s\<close> is \<^verbatim>\<open>s LIKE p\<close>: \<^verbatim>\<open>%\<close> in the pattern stands for any run of
  characters, \<^verbatim>\<open>_\<close> for any one character, and every other character for itself,
  upper and lower case ASCII letters alike.
\<close>

fun sqlite_like :: "string \<Rightarrow> string \<Rightarrow> bool" where
  "sqlite_like [] [] = True"
| "sqlite_like [] (c # s) = False"
| "sqlite_like (p # ps) [] = (p = CHR ''%'' \<and> sqlite_like ps [])"
| "sqlite_like (p # ps) (c # s) =
     (if p = CHR ''%'' then sqlite_like ps (c # s) \<or> sqlite_like (p # ps) s
      else (p = CHR ''_'' \<or> ascii_upper p = ascii_upper c) \<and> sqlite_like ps s)"


section \<open>Errors\<close>

text \<open>
  What a driver call can report: an I/O failure of the engine, a statement that does
  not compile, a violated constraint, and \<^verbatim>\<open>sql.ErrNoRows\<close>.
\<close>

datatype sql_cause = IOFault | SyntaxError | ConstraintFailed | ErrNoRows

text \<open>
  An error value of the package: the sentinel of \<^verbatim>\<open>libpod/define\<close> that
  \<^verbatim>\<open>errors.Is\<close> finds in it, with the operands that \<^verbatim>\<open>fmt.Errorf\<close> puts into
  its message. \<open>ErrSql\<close> is an error of the driver wrapped with the message of the
  step that failed, \<open>ErrJSON\<close> an error of \<^verbatim>\<open>encoding/json\<close>, \<open>ErrExternal\<close> an
  error of another package passed on as it is.
\<close>

datatype error =
    ErrDBClosed
  | ErrEmptyID
  | ErrNoSuchCtr
  | ErrCtrExists string
  | ErrCtrRemoved
  | ErrInvalidArg
  | ErrPodExists string
  | ErrPodRemoved
  | ErrNotImplemented
  | ErrNoSuchVolume
  | ErrVolumeRemoved
  | ErrVolumeBeingUsed string "string list"
  | ErrNoSuchExitCode string
  | ErrDBBadConfig string string string
  | ErrSql string sql_cause
  | ErrJSON string
  | ErrExternal string

section \<open>The database\<close>

text \<open>
  The tables, each a list of rows in the order the engine scans them. The columns
  are the ones the statements of the file name. \<^verbatim>\<open>sqliteInitTables\<close>, which
  declares the tables, is not part of the source file.
\<close>

record DBConfig_row =
  DB_ID :: int
  DB_SchemaVersion :: int
  DB_Os :: string
  DB_StaticDir :: string
  DB_TmpDir :: string
  DB_GraphRoot :: string
  DB_RunRoot :: string
  DB_GraphDriver :: string
  DB_VolumeDir :: string

record ContainerConfig_row =
  CC_ID :: string
  CC_Name :: string
  CC_PodID :: "string option"
  CC_JSON :: string

record VolumeConfig_row =
  VC_Name :: string
  VC_StorageID :: "string option"
  VC_JSON :: string

record db =
  DBConfig :: "DBConfig_row list"
  ContainerConfig :: "ContainerConfig_row list"
  ContainerState :: "(string \<times> string) list"  \<comment> \<open>ID, JSON\<close>
  PodConfig :: "(string \<times> string \<times> string) list"  \<comment> \<open>ID, Name, JSON\<close>
  PodState :: "(string \<times> string) list"  \<comment> \<open>ID, JSON\<close>
  VolumeConfig :: "VolumeConfig_row list"
  VolumeState :: "(string \<times> string) list"  \<comment> \<open>Name, JSON\<close>
  ContainerDependency :: "(string \<times> string) list"  \<comment> \<open>ID, DependencyID\<close>
  ContainerVolume :: "(string \<times> string) list"  \<comment> \<open>ContainerID, VolumeName\<close>
  ContainerExecSession :: "(string \<times> string) list"  \<comment> \<open>ID, ContainerID\<close>
  ContainerExitCode :: "(string \<times> int \<times> 32 word) list"  \<comment> \<open>ID, Timestamp, ExitCode\<close>

section \<open>The connection\<close>

text \<open>
  \<open>database\<close> holds the committed rows. The calls into the driver are numbered by
  \<open>calls\<close>; a call fails with an I/O error when its number is listed in \<open>faults\<close>,
  which stands for everything the environment can do to a call (a full disk, a
  locked file). With \<open>faults = []\<close> no call fails for such a reason.
\<close>

record conn =
  database :: db
  calls :: nat
  faults :: "nat list"

definition driver_call :: "conn \<Rightarrow> bool \<times> conn" where
  "driver_call c = (calls c \<in> set (faults c), c\<lparr>calls := Suc (calls c)\<rparr>)"

text \<open>
  \<^verbatim>\<open>conn.Query(sql, args...)\<close>: \<open>sel\<close> is the meaning of the statement with its
  arguments, the rows it selects from a database.
\<close>

definition conn_Query ::
  "string \<Rightarrow> (db \<Rightarrow> 'r list) \<Rightarrow> conn \<Rightarrow> (sql_cause + 'r list) \<times> conn" where
  "conn_Query sql sel c =
     (case driver_call c of
        (True, c') \<Rightarrow> (Inl IOFault, c')
      | (False, c') \<Rightarrow>
          if \<not> sqlite_prepare sql then (Inl SyntaxError, c')
          else (Inr (sel (database c')), c'))"

text \<open>\<^verbatim>\<open>rows.Scan(...)\<close> on the current row.\<close>

definition rows_Scan :: "conn \<Rightarrow> (sql_cause + unit) \<times> conn" where
  "rows_Scan c =
     (case driver_call c of (True, c') \<Rightarrow> (Inl IOFault, c') | (False, c') \<Rightarrow> (Inr (), c'))"

text \<open>\<^verbatim>\<open>conn.QueryRow(sql, args...).Scan(...)\<close>: the first selected row, or \<^verbatim>\<open>sql.ErrNoRows\<close>.\<close>

definition conn_QueryRow ::
  "string \<Rightarrow> (db \<Rightarrow> 'r list) \<Rightarrow> conn \<Rightarrow> (sql_cause + 'r) \<times> conn" where
  "conn_QueryRow sql sel c =
     (case driver_call c of
        (True, c') \<Rightarrow> (Inl IOFault, c')
      | (False, c') \<Rightarrow>
          if \<not> sqlite_prepare sql then (Inl SyntaxError, c')
          else (case sel (database c') of
                  [] \<Rightarrow> (Inl ErrNoRows, c')
                | r # _ \<Rightarrow> (Inr r, c')))"

text \<open>
  A transaction is the working copy of the rows that \<^verbatim>\<open>conn.Begin()\<close> hands out.
  \<^verbatim>\<open>tx.Exec\<close> and \<^verbatim>\<open>tx.Query\<close> work on the copy; \<^verbatim>\<open>tx.Commit()\<close> makes it the
  committed database, and a commit that fails leaves the committed rows alone (the
  driver rolls back). \<^verbatim>\<open>tx.Rollback()\<close> drops the copy.
\<close>

definition conn_Begin :: "conn \<Rightarrow> (sql_cause + db) \<times> conn" where
  "conn_Begin c =
     (case driver_call c of
        (True, c') \<Rightarrow> (Inl IOFault, c')
      | (False, c') \<Rightarrow> (Inr (database c'), c'))"

text \<open>
  \<^verbatim>\<open>tx.Exec(sql, args...)\<close>: \<open>run\<close> is the meaning of the statement with its
  arguments, the new rows and the number of rows affected, or a violated constraint.
\<close>

definition tx_Exec ::
  "string \<Rightarrow> (db \<Rightarrow> sql_cause + db \<times> nat) \<Rightarrow> db \<Rightarrow> conn \<Rightarrow> (sql_cause + db \<times> nat) \<times> conn" where
  "tx_Exec sql run tx c =
     (case driver_call c of
        (True, c') \<Rightarrow> (Inl IOFault, c')
      | (False, c') \<Rightarrow>
          if \<not> sqlite_prepare sql then (Inl SyntaxError, c') else (run tx, c'))"

definition tx_Query ::
  "string \<Rightarrow> (db \<Rightarrow> 'r list) \<Rightarrow> db \<Rightarrow> conn \<Rightarrow> (sql_cause + 'r list) \<times> conn" where
  "tx_Query sql sel tx c =
     (case driver_call c of
        (True, c') \<Rightarrow> (Inl IOFault, c')
      | (False, c') \<Rightarrow>
          if \<not> sqlite_prepare sql then (Inl SyntaxError, c') else (Inr (sel tx), c'))"

definition result_RowsAffected :: "nat \<Rightarrow> conn \<Rightarrow> (sql_cause + nat) \<times> conn" where
  "result_RowsAffected n c =
     (case driver_call c of (True, c') \<Rightarrow> (Inl IOFault, c') | (False, c') \<Rightarrow> (Inr n, c'))"

definition tx_Commit :: "db \<Rightarrow> conn \<Rightarrow> (sql_cause + unit) \<times> conn" where
  "tx_Commit tx c =
     (case driver_call c of
        (True, c') \<Rightarrow> (Inl IOFault, c')
      | (False, c') \<Rightarrow> (Inr (), c'\<lparr>database := tx\<rparr>))"

definition tx_Rollback :: "db \<Rightarrow> conn \<Rightarrow> conn" where
  "tx_Rollback tx c = c"

subsection \<open>Sequencing\<close>

type_synonym 'a io = "conn \<Rightarrow> (error + 'a) \<times> conn"

definition ok :: "'a \<Rightarrow> 'a io" where
  "ok a c = (Inr a, c)"

definition fail :: "error \<Rightarrow> 'a io" where
  "fail e c = (Inl e, c)"

text \<open>\<open>and_then m f\<close>: run \<open>m\<close>; return its error, or go on with \<open>f\<close> on its value.\<close>

definition and_then :: "'a io \<Rightarrow> ('a \<Rightarrow> 'b io) \<Rightarrow> 'b io" where
  "and_then m f c = (case m c of (Inl e, c') \<Rightarrow> (Inl e, c') | (Inr a, c') \<Rightarrow> f a c')"

text \<open>\<^verbatim>\<open>fmt.Errorf(msg + ": %w", err)\<close> around a driver call.\<close>

definition wrap :: "string \<Rightarrow> (conn \<Rightarrow> (sql_cause + 'a) \<times> conn) \<Rightarrow> 'a io" where
  "wrap msg m c =
     (case m c of (Inl cause, c') \<Rightarrow> (Inl (ErrSql msg cause), c') | (Inr a, c') \<Rightarrow> (Inr a, c'))"

text \<open>
  The deferred function of every operation that opens a transaction:
  \<^verbatim>\<open>if defErr != nil { tx.Rollback() }\<close>.
\<close>

definition rollback_on_error :: "db \<Rightarrow> 'a io \<Rightarrow> 'a io" where
  "rollback_on_error tx m c =
     (case m c of (Inl e, c') \<Rightarrow> (Inl e, tx_Rollback tx c') | (Inr a, c') \<Rightarrow> (Inr a, c'))"

text \<open>The loop \<^verbatim>\<open>for rows.Next() { rows.Scan(&x); xs = append(xs, x) }\<close>.\<close>

fun scan_all :: "string \<Rightarrow> 'r list \<Rightarrow> 'r list \<Rightarrow> 'r list io" where
  "scan_all msg [] acc c = (Inr acc, c)"
| "scan_all msg (r # rs) acc c =
     (case rows_Scan c of
        (Inl cause, c') \<Rightarrow> (Inl (ErrSql msg cause), c')
      | (Inr _, c') \<Rightarrow> scan_all msg rs (acc @ [r]) c')"

section \<open>The state and the handles\<close>

record EngineConfig =
  StaticDir :: string
  TmpDir :: string
  VolumePath :: string

record StoreOptions =
  GraphRoot :: string
  RunRoot :: string
  GraphDriverName :: string

text \<open>\<^verbatim>\<open>Runtime\<close>: \<open>config\<close> is \<^verbatim>\<open>runtime.config.Engine\<close>, \<open>storageConfig\<close> is \<^verbatim>\<open>runtime.StorageConfig()\<close>.\<close>

record Runtime =
  config :: EngineConfig
  storageConfig :: StoreOptions

record SQLiteState =
  valid :: bool
  conn :: conn
  runtime :: Runtime

text \<open>
  The handles. \<^verbatim>\<open>Container\<close>, \<^verbatim>\<open>Pod\<close> and \<^verbatim>\<open>Volume\<close> are declared outside the
  source file; the records hold the fields the file reads and writes:
  \<^verbatim>\<open>ctr.valid\<close>, \<^verbatim>\<open>ctr.config.ID\<close>, \<^verbatim>\<open>ctr.config.Pod\<close>, \<^verbatim>\<open>ctr.state\<close>, and
  likewise for pods and volumes. The type of a state is a parameter.
\<close>

record 'st Container =
  ctr_valid :: bool
  ctr_ID :: string
  ctr_Pod :: string
  ctr_state :: 'st

record Pod =
  pod_valid :: bool
  pod_ID :: string

record 'st Volume =
  vol_valid :: bool
  vol_Name :: string
  vol_state :: 'st


section \<open>Looking containers up\<close>

text \<open>
  The loop of \<^verbatim>\<open>LookupContainerID\<close> and \<^verbatim>\<open>LookupContainer\<close> over the selected rows;
  \<open>found\<close> is the scanned value, and \<^verbatim>\<open>foundResult\<close> is \<open>found \<noteq> None\<close>.
\<close>

fun lookup_rows :: "string \<Rightarrow> string list \<Rightarrow> string option \<Rightarrow> string option io" where
  "lookup_rows idOrName [] found c = (Inr found, c)"
| "lookup_rows idOrName (r # rs) found c =
     (if found \<noteq> None then (Inl (ErrCtrExists idOrName), c)
      else (case rows_Scan c of
              (Inl cause, c') \<Rightarrow>
                (Inl (ErrSql ''retrieving container %q ID from database'' cause), c')
            | (Inr _, c') \<Rightarrow> lookup_rows idOrName rs (Some r) c'))"

text \<open>
  The rows of \<^verbatim>\<open>... FROM ContainerConfig WHERE ContainerConfig.Name=? OR (ContainerConfig.ID LIKE ?)\<close>
  with both parameters bound to \<open>idOrName\<close>.
\<close>

definition name_or_id_like :: "string \<Rightarrow> db \<Rightarrow> ContainerConfig_row list" where
  "name_or_id_like idOrName d =
     filter (\<lambda>r. CC_Name r = idOrName \<or> sqlite_like idOrName (CC_ID r)) (ContainerConfig d)"

definition LookupContainerID :: "SQLiteState \<Rightarrow> string \<Rightarrow> (error + string) \<times> SQLiteState" where
  "LookupContainerID s idOrName =
     (if idOrName = [] then (Inl ErrEmptyID, s)
      else if \<not> valid s then (Inl ErrDBClosed, s)
      else
        (case and_then
                (wrap ''looking up container %q in database''
                   (conn_Query
                      ''SELECT ID FROM ContainerConfig WHERE ContainerConfig.Name=? OR (ContainerConfig.ID LIKE ?);''
                      (\<lambda>d. map CC_ID (name_or_id_like idOrName d))))
                (\<lambda>rows. lookup_rows idOrName rows None) (conn s) of
           (Inl e, c) \<Rightarrow> (Inl e, s\<lparr>conn := c\<rparr>)
         | (Inr None, c) \<Rightarrow> (Inl ErrNoSuchCtr, s\<lparr>conn := c\<rparr>)
         | (Inr (Some ctrID), c) \<Rightarrow> (Inr ctrID, s\<lparr>conn := c\<rparr>)))"

text \<open>
  \<^verbatim>\<open>LookupContainer\<close> builds the container from the row's JSON. The decoder of
  \<^verbatim>\<open>ContainerConfig\<close> and \<^verbatim>\<open>finalizeCtrSqlite\<close> are outside the source file and are
  parameters.
\<close>

definition LookupContainer ::
  "(string \<Rightarrow> 'cfg option) \<Rightarrow> ('cfg \<Rightarrow> error + 'ctr) \<Rightarrow> SQLiteState \<Rightarrow> string
     \<Rightarrow> (error + 'ctr) \<times> SQLiteState" where
  "LookupContainer unmarshalConfig finalizeCtrSqlite s idOrName =
     (if idOrName = [] then (Inl ErrEmptyID, s)
      else if \<not> valid s then (Inl ErrDBClosed, s)
      else
        (case and_then
                (wrap ''looking up container %q in database''
                   (conn_Query
                      ''SELECT JSON FROM ContainerConfig WHERE ContainerConfig.Name=? OR (ContainerConfig.ID LIKE ?);''
                      (\<lambda>d. map CC_JSON (name_or_id_like idOrName d))))
                (\<lambda>rows. lookup_rows idOrName rows None) (conn s) of
           (Inl e, c) \<Rightarrow> (Inl e, s\<lparr>conn := c\<rparr>)
         | (Inr None, c) \<Rightarrow> (Inl ErrNoSuchCtr, s\<lparr>conn := c\<rparr>)
         | (Inr (Some rawJSON), c) \<Rightarrow>
             (case unmarshalConfig rawJSON of
                None \<Rightarrow> (Inl (ErrJSON ''unmarshalling container config JSON''), s\<lparr>conn := c\<rparr>)
              | Some cfg \<Rightarrow> (finalizeCtrSqlite cfg, s\<lparr>conn := c\<rparr>))))"

section \<open>Refresh\<close>

text \<open>
  The JSON encoding of a state and the function that resets it
  (\<^verbatim>\<open>resetContainerState\<close>, \<^verbatim>\<open>resetPodState\<close>, \<^verbatim>\<open>resetVolumeState\<close>) are outside the
  source file and are parameters; \<open>None\<close> is an error of \<^verbatim>\<open>encoding/json\<close>.
\<close>

record 'st codec =
  unmarshal :: "string \<Rightarrow> 'st option"
  reset :: "'st \<Rightarrow> 'st"
  marshal :: "'st \<Rightarrow> string option"

text \<open>\<^verbatim>\<open>m[k] = v\<close> on a Go map kept as an association list.\<close>

fun map_put :: "string \<Rightarrow> string \<Rightarrow> (string \<times> string) list \<Rightarrow> (string \<times> string) list" where
  "map_put k v [] = [(k, v)]"
| "map_put k v (e # m) = (if fst e = k then (k, v) # m else e # map_put k v m)"

text \<open>
  One of the three loops that read the state rows: scan the row, decode the state,
  reset it, encode it again, and keep the new JSON under the row's key. \<open>msgs\<close> are the
  messages of the three errors.
\<close>

fun reset_states ::
  "string \<times> string \<times> string \<Rightarrow> 'st codec \<Rightarrow> (string \<times> string) list
     \<Rightarrow> (string \<times> string) list \<Rightarrow> (string \<times> string) list io" where
  "reset_states msgs cd [] m c = (Inr m, c)"
| "reset_states msgs cd (row # rows) m c =
     (case rows_Scan c of
        (Inl cause, c') \<Rightarrow> (Inl (ErrSql (fst msgs) cause), c')
      | (Inr _, c') \<Rightarrow>
          (case unmarshal cd (snd row) of
             None \<Rightarrow> (Inl (ErrJSON (fst (snd msgs))), c')
           | Some st \<Rightarrow>
               (case marshal cd (reset cd st) of
                  None \<Rightarrow> (Inl (ErrJSON (snd (snd msgs))), c')
                | Some newJSON \<Rightarrow> reset_states msgs cd rows (map_put (fst row) newJSON m) c')))"

text \<open>
  What \<^verbatim>\<open>UPDATE t SET JSON=? WHERE key=?\<close> does to the rows of a state table, and
  the number of rows it affects.
\<close>

definition set_json :: "string \<Rightarrow> string \<Rightarrow> (string \<times> string) list \<Rightarrow> (string \<times> string) list" where
  "set_json json k rows = map (\<lambda>r. if fst r = k then (k, json) else r) rows"

definition affected :: "string \<Rightarrow> (string \<times> 'b) list \<Rightarrow> nat" where
  "affected k rows = length (filter (\<lambda>r. fst r = k) rows)"

definition update_ContainerState :: "string \<Rightarrow> string \<Rightarrow> db \<Rightarrow> sql_cause + db \<times> nat" where
  "update_ContainerState json k d =
     Inr (d\<lparr>ContainerState := set_json json k (ContainerState d)\<rparr>, affected k (ContainerState d))"

definition update_PodState :: "string \<Rightarrow> string \<Rightarrow> db \<Rightarrow> sql_cause + db \<times> nat" where
  "update_PodState json k d =
     Inr (d\<lparr>PodState := set_json json k (PodState d)\<rparr>, affected k (PodState d))"

definition update_VolumeState :: "string \<Rightarrow> string \<Rightarrow> db \<Rightarrow> sql_cause + db \<times> nat" where
  "update_VolumeState json k d =
     Inr (d\<lparr>VolumeState := set_json json k (VolumeState d)\<rparr>, affected k (VolumeState d))"

text \<open>
  One of the three loops that write the new states back,
  \<^verbatim>\<open>for id, json := range m { tx.Exec(sql, json, id) }\<close>. Go leaves the order of the
  keys open; the model takes the keys in the order of the list.
\<close>

fun write_states ::
  "string \<Rightarrow> string \<Rightarrow> (string \<Rightarrow> string \<Rightarrow> db \<Rightarrow> sql_cause + db \<times> nat)
     \<Rightarrow> (string \<times> string) list \<Rightarrow> db \<Rightarrow> db io" where
  "write_states sql msg upd [] tx c = (Inr tx, c)"
| "write_states sql msg upd (e # m) tx c =
     (case tx_Exec sql (upd (snd e) (fst e)) tx c of
        (Inl cause, c') \<Rightarrow> (Inl (ErrSql msg cause), c')
      | (Inr (tx', _), c') \<Rightarrow> write_states sql msg upd m tx' c')"

definition delete_ContainerExitCode :: "db \<Rightarrow> sql_cause + db \<times> nat" where
  "delete_ContainerExitCode d = Inr (d\<lparr>ContainerExitCode := []\<rparr>, length (ContainerExitCode d))"

definition delete_ContainerExecSession :: "db \<Rightarrow> sql_cause + db \<times> nat" where
  "delete_ContainerExecSession d =
     Inr (d\<lparr>ContainerExecSession := []\<rparr>, length (ContainerExecSession d))"

definition refresh_conn ::
  "'cs codec \<Rightarrow> 'ps codec \<Rightarrow> 'vs codec \<Rightarrow> unit io" where
  "refresh_conn ctrCodec podCodec volCodec =
     and_then (wrap ''querying for container states''
                 (conn_Query ''SELECT ID, JSON FROM ContainerState;'' ContainerState)) (\<lambda>ctrRows.
     and_then (reset_states
                 (''scanning container state row'', ''unmarshalling container state json'',
                  ''marshalling container state json'') ctrCodec ctrRows []) (\<lambda>ctrStates.
     and_then (wrap ''querying for pod states''
                 (conn_Query ''SELECT ID, JSON FROM PodState;'' PodState)) (\<lambda>podRows.
     and_then (reset_states
                 (''scanning pod state row'', ''unmarshalling pod state json'',
                  ''marshalling pod state json'') podCodec podRows []) (\<lambda>podStates.
     and_then (wrap ''querying for volume states''
                 (conn_Query ''SELECT Name, JSON FROM VolumeState;'' VolumeState)) (\<lambda>volRows.
     and_then (reset_states
                 (''scanning volume state row'', ''unmarshalling volume state json'',
                  ''marshalling volume state json'') volCodec volRows []) (\<lambda>volumeStates.
     and_then (wrap ''beginning refresh transaction'' conn_Begin) (\<lambda>tx.
     rollback_on_error tx (
       and_then (write_states ''UPDATE TABLE ContainerState SET JSON=? WHERE ID=?;''
                   ''updating container state'' update_ContainerState ctrStates tx) (\<lambda>tx1.
       and_then (write_states ''UPDATE TABLE PodState SET JSON=? WHERE ID=?;''
                   ''updating pod state'' update_PodState podStates tx1) (\<lambda>tx2.
       and_then (write_states ''UPDATE TABLE VolumeState SET JSON=? WHERE Name=?;''
                   ''updating volume state'' update_VolumeState volumeStates tx2) (\<lambda>tx3.
       and_then (wrap ''removing container exit codes''
                   (tx_Exec ''DELETE FROM ContainerExitCode;'' delete_ContainerExitCode tx3)) (\<lambda>r4.
       and_then (wrap ''removing container exec sessions''
                   (tx_Exec ''DELETE FROM ContainerExecSession;'' delete_ContainerExecSession
                      (fst r4))) (\<lambda>r5.
       wrap ''committing transaction'' (tx_Commit (fst r5)))))))))))))))"

definition Refresh ::
  "'cs codec \<Rightarrow> 'ps codec \<Rightarrow> 'vs codec \<Rightarrow> SQLiteState \<Rightarrow> (error + unit) \<times> SQLiteState" where
  "Refresh ctrCodec podCodec volCodec s =
     (if \<not> valid s then (Inl ErrDBClosed, s)
      else (case refresh_conn ctrCodec podCodec volCodec (conn s) of
              (r, c) \<Rightarrow> (r, s\<lparr>conn := c\<rparr>)))"


section \<open>The configuration record\<close>

text \<open>
  What \<^verbatim>\<open>ValidateDBConfig\<close> takes from outside the package: \<^verbatim>\<open>runtime.GOOS\<close>,
  \<^verbatim>\<open>filepath.Clean\<close>, and the result of \<^verbatim>\<open>storage.DefaultStoreOptions\<close>.
\<close>

record Env =
  GOOS :: string
  Clean :: "string \<Rightarrow> string"
  DefaultStoreOptions :: "error + StoreOptions"

definition schemaVersion :: int where
  "schemaVersion = 1"

text \<open>
  The constant \<^verbatim>\<open>createRow\<close> of \<^verbatim>\<open>ValidateDBConfig\<close>, a raw string over six lines.
  It writes the table as \<^verbatim>\<open>DBconfig\<close>; the engine does not tell the case of the letters
  of a table name apart.
\<close>

definition createRow :: string where
  "createRow =
     [CHR 0x0A] @ ''        INSERT INTO DBconfig VALUES ('' @
     [CHR 0x0A] @ ''                ?, ?, ?,'' @
     [CHR 0x0A] @ ''                ?, ?, ?,'' @
     [CHR 0x0A] @ ''                ?, ?, ?'' @
     [CHR 0x0A] @ ''        );''"

text \<open>
  Modelled from the spec: the table declaration of \<^verbatim>\<open>DBConfig\<close> (\<^verbatim>\<open>sqliteInitTables\<close>
  is not part of the source file). The spec gives the columns in the order of the
  values of \<open>createRow\<close> and makes the row a singleton, so a second row with the
  same \<open>id\<close> violates the key.
\<close>

definition insert_DBConfig :: "DBConfig_row \<Rightarrow> db \<Rightarrow> sql_cause + db \<times> nat" where
  "insert_DBConfig row d =
     (if DB_ID row \<in> DB_ID ` set (DBConfig d) then Inl ConstraintFailed
      else Inr (d\<lparr>DBConfig := DBConfig d @ [row]\<rparr>, 1))"

definition checkField :: "string \<Rightarrow> string \<Rightarrow> string \<Rightarrow> error + unit" where
  "checkField fieldName dbVal ourVal =
     (if dbVal \<noteq> ourVal then Inl (ErrDBBadConfig fieldName dbVal ourVal) else Inr ())"

text \<open>The chain of \<^verbatim>\<open>if err := checkField(...); err != nil { return err }\<close>.\<close>

fun check_fields :: "(string \<times> string \<times> string) list \<Rightarrow> error + unit" where
  "check_fields [] = Inr ()"
| "check_fields (f # fs) =
     (case checkField (fst f) (fst (snd f)) (snd (snd f)) of
        Inl e \<Rightarrow> Inl e
      | Inr _ \<Rightarrow> check_fields fs)"

text \<open>The runtime's values, after \<^verbatim>\<open>filepath.Clean\<close> and the defaults of \<^verbatim>\<open>c/storage\<close>.\<close>

definition runtime_row :: "Env \<Rightarrow> StoreOptions \<Rightarrow> Runtime \<Rightarrow> DBConfig_row" where
  "runtime_row env storeOpts rt =
     (let runtimeOS = GOOS env;
          runtimeStaticDir = Clean env (StaticDir (config rt));
          runtimeTmpDir = Clean env (TmpDir (config rt));
          runtimeGraphRoot = Clean env (GraphRoot (storageConfig rt));
          runtimeRunRoot = Clean env (RunRoot (storageConfig rt));
          runtimeGraphDriver = GraphDriverName (storageConfig rt);
          runtimeVolumePath = Clean env (VolumePath (config rt))
      in \<lparr>DB_ID = 1, DB_SchemaVersion = schemaVersion, DB_Os = runtimeOS,
          DB_StaticDir = runtimeStaticDir, DB_TmpDir = runtimeTmpDir,
          DB_GraphRoot = (if runtimeGraphRoot = [] then GraphRoot storeOpts else runtimeGraphRoot),
          DB_RunRoot = (if runtimeRunRoot = [] then RunRoot storeOpts else runtimeRunRoot),
          DB_GraphDriver =
            (if runtimeGraphDriver = [] then GraphDriverName storeOpts else runtimeGraphDriver),
          DB_VolumeDir = runtimeVolumePath\<rparr>)"

text \<open>
  The checks in the order of the source: the name of the field, the value of the
  row in the database, the value of the runtime.
\<close>

definition config_checks :: "DBConfig_row \<Rightarrow> DBConfig_row \<Rightarrow> (string \<times> string \<times> string) list" where
  "config_checks row ours =
     [(''os'', DB_Os row, DB_Os ours),
      (''static dir'', DB_StaticDir row, DB_StaticDir ours),
      (''tmp dir'', DB_TmpDir row, DB_TmpDir ours),
      (''graph root'', DB_GraphRoot row, DB_GraphRoot ours),
      (''run root'', DB_RunRoot row, DB_RunRoot ours),
      (''graph driver'', DB_GraphDriver row, DB_GraphDriver ours),
      (''volume path'', DB_VolumeDir row, DB_VolumeDir ours)]"

text \<open>
  \<^verbatim>\<open>ValidateDBConfig(runtime)\<close>. The source reads the values from \<^verbatim>\<open>s.runtime\<close>
  and never from its argument.
\<close>

definition ValidateDBConfig ::
  "Env \<Rightarrow> SQLiteState \<Rightarrow> Runtime \<Rightarrow> (error + unit) \<times> SQLiteState" where
  "ValidateDBConfig env s rt =
     (if \<not> valid s then (Inl ErrDBClosed, s)
      else
        (case DefaultStoreOptions env of
           Inl err \<Rightarrow> (Inl err, s)
         | Inr storeOpts \<Rightarrow>
             (let ours = runtime_row env storeOpts (runtime s) in
              (case conn_QueryRow
                      ''SELECT Os, StaticDir, TmpDir, GraphRoot, RunRoot, GraphDriver, VolumeDir FROM DBConfig;''
                      DBConfig (conn s) of
                 (Inl cause, c1) \<Rightarrow>
                   if cause = ErrNoRows then
                     (case and_then (wrap ''beginning DB config transaction'' conn_Begin) (\<lambda>tx.
                           rollback_on_error tx (
                             and_then (wrap ''adding DB config row''
                                         (tx_Exec createRow (insert_DBConfig ours) tx)) (\<lambda>r.
                             wrap ''committing DB config transaction'' (tx_Commit (fst r))))) c1 of
                        (r, c2) \<Rightarrow> (r, s\<lparr>conn := c2\<rparr>))
                   else (Inl (ErrSql ''retrieving DB config'' cause), s\<lparr>conn := c1\<rparr>)
               | (Inr row, c1) \<Rightarrow>
                   (check_fields (config_checks row ours), s\<lparr>conn := c1\<rparr>)))))"

section \<open>Containers\<close>

text \<open>
  \<^verbatim>\<open>addContainer\<close> and \<^verbatim>\<open>removeContainer\<close>, the internal functions that
  \<^verbatim>\<open>AddContainer\<close> and \<^verbatim>\<open>RemoveContainer\<close> end in, are outside the source file and
  are parameters.
\<close>

definition AddContainer ::
  "(SQLiteState \<Rightarrow> 'st Container \<Rightarrow> (error + unit) \<times> SQLiteState \<times> 'st Container)
     \<Rightarrow> SQLiteState \<Rightarrow> 'st Container \<Rightarrow> (error + unit) \<times> SQLiteState \<times> 'st Container" where
  "AddContainer addContainer s ctr =
     (if \<not> valid s then (Inl ErrDBClosed, s, ctr)
      else if \<not> ctr_valid ctr then (Inl ErrCtrRemoved, s, ctr)
      else if ctr_Pod ctr \<noteq> [] then (Inl ErrInvalidArg, s, ctr)
      else addContainer s ctr)"

definition RemoveContainer ::
  "(SQLiteState \<Rightarrow> 'st Container \<Rightarrow> (error + unit) \<times> SQLiteState \<times> 'st Container)
     \<Rightarrow> SQLiteState \<Rightarrow> 'st Container \<Rightarrow> (error + unit) \<times> SQLiteState \<times> 'st Container" where
  "RemoveContainer removeContainer s ctr =
     (if \<not> valid s then (Inl ErrDBClosed, s, ctr)
      else if ctr_Pod ctr \<noteq> [] then (Inl (ErrPodExists (ctr_ID ctr)), s, ctr)
      else removeContainer s ctr)"

text \<open>
  \<^verbatim>\<open>SaveContainer\<close>; \<open>marshalState\<close> is \<^verbatim>\<open>json.Marshal\<close> on the container's state.
  The result carries the handle, whose \<open>ctr_valid\<close> the operation may clear.
\<close>

definition SaveContainer ::
  "('st \<Rightarrow> string option) \<Rightarrow> SQLiteState \<Rightarrow> 'st Container
     \<Rightarrow> (error + unit) \<times> SQLiteState \<times> 'st Container" where
  "SaveContainer marshalState s ctr =
     (if \<not> valid s then (Inl ErrDBClosed, s, ctr)
      else if \<not> ctr_valid ctr then (Inl ErrCtrRemoved, s, ctr)
      else
        (case marshalState (ctr_state ctr) of
           None \<Rightarrow> (Inl (ErrJSON ''marshalling container %s state JSON''), s, ctr)
         | Some stateJSON \<Rightarrow>
             (case conn_Begin (conn s) of
                (Inl cause, c1) \<Rightarrow>
                  (Inl (ErrSql ''beginning container %s save transaction'' cause),
                   s\<lparr>conn := c1\<rparr>, ctr)
              | (Inr tx, c1) \<Rightarrow>
                  (case tx_Exec ''UPDATE ContainerState SET JSON=? WHERE ID=?;''
                          (update_ContainerState stateJSON (ctr_ID ctr)) tx c1 of
                     (Inl cause, c2) \<Rightarrow>
                       (Inl (ErrSql ''writing container %s state'' cause),
                        s\<lparr>conn := tx_Rollback tx c2\<rparr>, ctr)
                   | (Inr (tx', result), c2) \<Rightarrow>
                       (case result_RowsAffected result c2 of
                          (Inl cause, c3) \<Rightarrow>
                            (Inl (ErrSql ''retrieving container %s save rows affected'' cause),
                             s\<lparr>conn := tx_Rollback tx c3\<rparr>, ctr)
                        | (Inr rows, c3) \<Rightarrow>
                            if rows = 0 then
                              (Inl ErrNoSuchCtr, s\<lparr>conn := tx_Rollback tx c3\<rparr>,
                               ctr\<lparr>ctr_valid := False\<rparr>)
                            else
                              (case tx_Commit tx' c3 of
                                 (Inl cause, c4) \<Rightarrow>
                                   (Inl (ErrSql ''committing container %s state'' cause),
                                    s\<lparr>conn := tx_Rollback tx c4\<rparr>, ctr)
                               | (Inr _, c4) \<Rightarrow> (Inr (), s\<lparr>conn := c4\<rparr>, ctr)))))))"

section \<open>Exit codes\<close>

text \<open>
  The table declaration of \<^verbatim>\<open>ContainerExitCode\<close> is outside the source file.
  Whether it makes \<open>ID\<close> a key is the parameter \<open>id_is_key\<close>: with a key, a second
  row for a container violates it; without, the row is added after the others.
\<close>

definition insert_ContainerExitCode ::
  "bool \<Rightarrow> string \<Rightarrow> int \<Rightarrow> 32 word \<Rightarrow> db \<Rightarrow> sql_cause + db \<times> nat" where
  "insert_ContainerExitCode id_is_key k timestamp exitCode d =
     (if id_is_key \<and> k \<in> fst ` set (ContainerExitCode d) then Inl ConstraintFailed
      else Inr (d\<lparr>ContainerExitCode := ContainerExitCode d @ [(k, timestamp, exitCode)]\<rparr>, 1))"

text \<open>\<open>now\<close> is \<^verbatim>\<open>time.Now().Unix()\<close>, the seconds since the epoch.\<close>

definition AddContainerExitCode ::
  "bool \<Rightarrow> int \<Rightarrow> SQLiteState \<Rightarrow> string \<Rightarrow> 32 word \<Rightarrow> (error + unit) \<times> SQLiteState" where
  "AddContainerExitCode id_is_key now s k exitCode =
     (if length k = 0 then (Inl ErrEmptyID, s)
      else if \<not> valid s then (Inl ErrDBClosed, s)
      else
        (case and_then (wrap ''beginning transaction to add exit code'' conn_Begin) (\<lambda>tx.
              rollback_on_error tx (
                and_then (wrap ''adding container %s exit code''
                            (tx_Exec ''INSERT INTO ContainerExitCode VALUES (?, ?, ?);''
                               (insert_ContainerExitCode id_is_key k now exitCode) tx)) (\<lambda>r.
                wrap ''committing transaction to add exit code'' (tx_Commit (fst r)))))
              (conn s) of
           (r, c) \<Rightarrow> (r, s\<lparr>conn := c\<rparr>)))"

definition exit_code_rows :: "string \<Rightarrow> db \<Rightarrow> (string \<times> int \<times> 32 word) list" where
  \<comment> \<open>\<^verbatim>\<open>... FROM ContainerExitCode WHERE ID=?\<close>\<close>
  "exit_code_rows k d = filter (\<lambda>r. fst r = k) (ContainerExitCode d)"

definition GetContainerExitCode ::
  "SQLiteState \<Rightarrow> string \<Rightarrow> (error + 32 word) \<times> SQLiteState" where
  "GetContainerExitCode s k =
     (if length k = 0 then (Inl ErrEmptyID, s)
      else if \<not> valid s then (Inl ErrDBClosed, s)
      else
        (case conn_QueryRow ''SELECT ExitCode FROM ContainerExitCode WHERE ID=?;''
                (\<lambda>d. map (\<lambda>r. snd (snd r)) (exit_code_rows k d)) (conn s) of
           (Inl cause, c) \<Rightarrow>
             if cause = ErrNoRows then (Inl (ErrNoSuchExitCode k), s\<lparr>conn := c\<rparr>)
             else (Inl (ErrSql ''scanning exit code of container %s'' cause), s\<lparr>conn := c\<rparr>)
         | (Inr exitCode, c) \<Rightarrow> (Inr exitCode, s\<lparr>conn := c\<rparr>)))"

text \<open>The result is the time \<^verbatim>\<open>time.Unix(timestamp, 0)\<close>, given by its seconds.\<close>

definition GetContainerExitCodeTimeStamp ::
  "SQLiteState \<Rightarrow> string \<Rightarrow> (error + int) \<times> SQLiteState" where
  "GetContainerExitCodeTimeStamp s k =
     (if length k = 0 then (Inl ErrEmptyID, s)
      else if \<not> valid s then (Inl ErrDBClosed, s)
      else
        (case conn_QueryRow ''SELECT Timestamp FROM ContainerExitCode WHERE ID=?;''
                (\<lambda>d. map (\<lambda>r. fst (snd r)) (exit_code_rows k d)) (conn s) of
           (Inl cause, c) \<Rightarrow>
             if cause = ErrNoRows then (Inl (ErrNoSuchExitCode k), s\<lparr>conn := c\<rparr>)
             else (Inl (ErrSql ''scanning exit timestamp of container %s'' cause), s\<lparr>conn := c\<rparr>)
         | (Inr timestamp, c) \<Rightarrow> (Inr timestamp, s\<lparr>conn := c\<rparr>)))"

definition delete_exit_codes_until :: "int \<Rightarrow> db \<Rightarrow> sql_cause + db \<times> nat" where
  \<comment> \<open>\<^verbatim>\<open>DELETE FROM ContainerExitCode WHERE (Timestamp <= ?)\<close>\<close>
  "delete_exit_codes_until t d =
     Inr (d\<lparr>ContainerExitCode := filter (\<lambda>r. \<not> fst (snd r) \<le> t) (ContainerExitCode d)\<rparr>,
          length (filter (\<lambda>r. fst (snd r) \<le> t) (ContainerExitCode d)))"

text \<open>\<^verbatim>\<open>time.Now().Add(-5 * time.Minute).Unix()\<close> is \<open>now - 300\<close>.\<close>

definition PruneContainerExitCodes :: "int \<Rightarrow> SQLiteState \<Rightarrow> (error + unit) \<times> SQLiteState" where
  "PruneContainerExitCodes now s =
     (if \<not> valid s then (Inl ErrDBClosed, s)
      else
        (let fiveMinsAgo = now - 300 in
         (case and_then (wrap ''beginning transaction to remove old timestamps'' conn_Begin) (\<lambda>tx.
               rollback_on_error tx (
                 and_then (wrap ''removing exit codes with timestamps older than 5 minutes''
                             (tx_Exec ''DELETE FROM ContainerExitCode WHERE (Timestamp <= ?);''
                                (delete_exit_codes_until fiveMinsAgo) tx)) (\<lambda>r.
                 wrap ''committing transaction to remove old timestamps'' (tx_Commit (fst r)))))
               (conn s) of
            (r, c) \<Rightarrow> (r, s\<lparr>conn := c\<rparr>))))"


section \<open>Volumes\<close>

definition volume_users :: "string \<Rightarrow> db \<Rightarrow> string list" where
  \<comment> \<open>\<^verbatim>\<open>SELECT ContainerID FROM ContainerVolume WHERE VolumeName=?\<close>\<close>
  "volume_users name d = map fst (filter (\<lambda>r. snd r = name) (ContainerVolume d))"

text \<open>
  Modelled from the spec: the foreign keys of the volume tables (\<^verbatim>\<open>sqliteInitTables\<close>
  is not part of the source file). The spec has deleting a config row delete the
  state row and the relationship rows that refer to it; the number of rows affected
  counts the config rows only.
\<close>

definition delete_VolumeConfig :: "string \<Rightarrow> db \<Rightarrow> sql_cause + db \<times> nat" where
  \<comment> \<open>\<^verbatim>\<open>DELETE FROM VolumeConfig WHERE Name=?\<close>\<close>
  "delete_VolumeConfig name d =
     Inr (d\<lparr>VolumeConfig := filter (\<lambda>r. VC_Name r \<noteq> name) (VolumeConfig d),
            VolumeState := filter (\<lambda>r. fst r \<noteq> name) (VolumeState d),
            ContainerVolume := filter (\<lambda>r. snd r \<noteq> name) (ContainerVolume d)\<rparr>,
          length (filter (\<lambda>r. VC_Name r = name) (VolumeConfig d)))"

definition delete_VolumeState :: "string \<Rightarrow> db \<Rightarrow> sql_cause + db \<times> nat" where
  \<comment> \<open>\<^verbatim>\<open>DELETE FROM VolumeState WHERE Name=?\<close>\<close>
  "delete_VolumeState name d =
     Inr (d\<lparr>VolumeState := filter (\<lambda>r. fst r \<noteq> name) (VolumeState d)\<rparr>,
          affected name (VolumeState d))"

text \<open>\<^verbatim>\<open>RemoveVolume\<close>. The source does not read \<^verbatim>\<open>volume.valid\<close> here.\<close>

definition RemoveVolume :: "SQLiteState \<Rightarrow> 'st Volume \<Rightarrow> (error + unit) \<times> SQLiteState" where
  "RemoveVolume s volume =
     (if \<not> valid s then (Inl ErrDBClosed, s)
      else
        (case and_then (wrap ''beginning volume %s removal transaction'' conn_Begin) (\<lambda>tx.
              rollback_on_error tx (
                and_then (wrap ''querying for containers using volume %s''
                            (tx_Query ''SELECT ContainerID FROM ContainerVolume WHERE VolumeName=?;''
                               (volume_users (vol_Name volume)) tx)) (\<lambda>rows.
                and_then (scan_all ''error scanning row for containers using volume %s'' rows [])
                  (\<lambda>ctrs.
                if length ctrs > 0 then fail (ErrVolumeBeingUsed (vol_Name volume) ctrs)
                else
                  and_then (wrap ''removing volume %s config from DB''
                              (tx_Exec ''DELETE FROM VolumeConfig WHERE Name=?;''
                                 (delete_VolumeConfig (vol_Name volume)) tx)) (\<lambda>r1.
                  and_then (wrap ''removing volume %s state from DB''
                              (tx_Exec ''DELETE FROM VolumeState WHERE Name=?;''
                                 (delete_VolumeState (vol_Name volume)) (fst r1))) (\<lambda>r2.
                  wrap ''committing transaction to remove volume %s'' (tx_Commit (fst r2))))))))
              (conn s) of
           (r, c) \<Rightarrow> (r, s\<lparr>conn := c\<rparr>)))"

text \<open>\<^verbatim>\<open>UpdateVolume\<close>; \<open>unmarshalState\<close> is \<^verbatim>\<open>json.Unmarshal\<close> into a \<^verbatim>\<open>VolumeState\<close>.\<close>

definition UpdateVolume ::
  "(string \<Rightarrow> 'st option) \<Rightarrow> SQLiteState \<Rightarrow> 'st Volume
     \<Rightarrow> (error + unit) \<times> SQLiteState \<times> 'st Volume" where
  "UpdateVolume unmarshalState s volume =
     (if \<not> valid s then (Inl ErrDBClosed, s, volume)
      else if \<not> vol_valid volume then (Inl ErrVolumeRemoved, s, volume)
      else
        (case conn_QueryRow ''SELECT JSON FROM VolumeState WHERE Name=?;''
                (\<lambda>d. map snd (filter (\<lambda>r. fst r = vol_Name volume) (VolumeState d))) (conn s) of
           (Inl cause, c) \<Rightarrow>
             if cause = ErrNoRows then
               (Inl ErrNoSuchVolume, s\<lparr>conn := c\<rparr>, volume\<lparr>vol_valid := False\<rparr>)
             else (Inl (ErrSql ''scanning volume %s state JSON'' cause), s\<lparr>conn := c\<rparr>, volume)
         | (Inr stateJSON, c) \<Rightarrow>
             (case unmarshalState stateJSON of
                None \<Rightarrow> (Inl (ErrJSON ''unmarshalling volume %s state''), s\<lparr>conn := c\<rparr>, volume)
              | Some newState \<Rightarrow> (Inr (), s\<lparr>conn := c\<rparr>, volume\<lparr>vol_state := newState\<rparr>))))"

text \<open>\<^verbatim>\<open>SaveVolume\<close>; \<open>marshalState\<close> is \<^verbatim>\<open>json.Marshal\<close> on the volume's state.\<close>

definition SaveVolume ::
  "('st \<Rightarrow> string option) \<Rightarrow> SQLiteState \<Rightarrow> 'st Volume
     \<Rightarrow> (error + unit) \<times> SQLiteState \<times> 'st Volume" where
  "SaveVolume marshalState s volume =
     (if \<not> valid s then (Inl ErrDBClosed, s, volume)
      else if \<not> vol_valid volume then (Inl ErrVolumeRemoved, s, volume)
      else
        (case marshalState (vol_state volume) of
           None \<Rightarrow> (Inl (ErrJSON ''marshalling volume %s state JSON''), s, volume)
         | Some stateJSON \<Rightarrow>
             (case conn_Begin (conn s) of
                (Inl cause, c1) \<Rightarrow>
                  (Inl (ErrSql ''beginning transaction to rewrite volume %s state'' cause),
                   s\<lparr>conn := c1\<rparr>, volume)
              | (Inr tx, c1) \<Rightarrow>
                  (case tx_Exec ''UPDATE TABLE VolumeState SET JSON=? WHERE Name=?;''
                          (update_VolumeState stateJSON (vol_Name volume)) tx c1 of
                     (Inl cause, c2) \<Rightarrow>
                       (Inl (ErrSql ''updating volume %s state in DB'' cause),
                        s\<lparr>conn := tx_Rollback tx c2\<rparr>, volume)
                   | (Inr (tx', results), c2) \<Rightarrow>
                       (case result_RowsAffected results c2 of
                          (Inl cause, c3) \<Rightarrow>
                            (Inl (ErrSql ''retrieving volume %s state rewrite rows affected'' cause),
                             s\<lparr>conn := tx_Rollback tx c3\<rparr>, volume)
                        | (Inr rows, c3) \<Rightarrow>
                            if rows = 0 then
                              (Inl ErrNoSuchVolume, s\<lparr>conn := tx_Rollback tx c3\<rparr>,
                               volume\<lparr>vol_valid := False\<rparr>)
                            else
                              (case tx_Commit tx' c3 of
                                 (Inl cause, c4) \<Rightarrow>
                                   (Inl (ErrSql ''committing transaction to rewrite volume %s state'' cause),
                                    s\<lparr>conn := tx_Rollback tx c4\<rparr>, volume)
                               | (Inr _, c4) \<Rightarrow> (Inr (), s\<lparr>conn := c4\<rparr>, volume)))))))"

definition VolumeInUse ::
  "SQLiteState \<Rightarrow> 'st Volume \<Rightarrow> (error + string list) \<times> SQLiteState" where
  "VolumeInUse s volume =
     (if \<not> valid s then (Inl ErrDBClosed, s)
      else if \<not> vol_valid volume then (Inl ErrVolumeRemoved, s)
      else
        (case and_then (wrap ''querying database for containers using volume %s''
                          (conn_Query ''SELECT ContainerID FROM ContainerVolume WHERE VolumeName=?;''
                             (volume_users (vol_Name volume)))) (\<lambda>rows.
              scan_all ''scanning container ID for container using volume %s'' rows [])
              (conn s) of
           (r, c) \<Rightarrow> (r, s\<lparr>conn := c\<rparr>)))"

section \<open>Pods\<close>

text \<open>The pod operations of the file stop at \<^verbatim>\<open>define.ErrNotImplemented\<close>.\<close>

definition UpdatePod :: "SQLiteState \<Rightarrow> Pod \<Rightarrow> (error + unit) \<times> SQLiteState \<times> Pod" where
  "UpdatePod s pod =
     (if \<not> valid s then (Inl ErrDBClosed, s, pod)
      else if \<not> pod_valid pod then (Inl ErrPodRemoved, s, pod)
      else (Inl ErrNotImplemented, s, pod))"

definition SavePod :: "SQLiteState \<Rightarrow> Pod \<Rightarrow> (error + unit) \<times> SQLiteState \<times> Pod" where
  "SavePod s pod =
     (if \<not> valid s then (Inl ErrDBClosed, s, pod)
      else if \<not> pod_valid pod then (Inl ErrPodRemoved, s, pod)
      else (Inl ErrNotImplemented, s, pod))"


section \<open>Example stores\<close>

text \<open>Concrete stores, handles and codecs on which the theorems below are run.\<close>

definition empty_db :: db where
  "empty_db =
     \<lparr>DBConfig = [], ContainerConfig = [], ContainerState = [], PodConfig = [],
      PodState = [], VolumeConfig = [], VolumeState = [], ContainerDependency = [],
      ContainerVolume = [], ContainerExecSession = [], ContainerExitCode = []\<rparr>"

definition example_runtime :: Runtime where
  "example_runtime =
     \<lparr>config = \<lparr>StaticDir = ''/var/lib/containers/storage/libpod'',
                 TmpDir = ''/run/libpod'',
                 VolumePath = ''/var/lib/containers/storage/volumes''\<rparr>,
      storageConfig = \<lparr>GraphRoot = ''/var/lib/containers/storage'',
                        RunRoot = ''/run/containers/storage'',
                        GraphDriverName = ''overlay''\<rparr>\<rparr>"

text \<open>An open store over the rows \<open>d\<close> in which the driver calls numbered in \<open>fs\<close> fail.\<close>

definition open_store :: "db \<Rightarrow> nat list \<Rightarrow> SQLiteState" where
  "open_store d fs =
     \<lparr>valid = True, conn = \<lparr>database = d, calls = 0, faults = fs\<rparr>, runtime = example_runtime\<rparr>"

text \<open>A codec whose states are their own JSON text and whose reset changes nothing.\<close>

definition plain_codec :: "string codec" where
  "plain_codec = \<lparr>unmarshal = Some, reset = (\<lambda>st. st), marshal = Some\<rparr>"

definition example_env :: Env where
  "example_env =
     \<lparr>GOOS = ''linux'', Clean = (\<lambda>p. p),
      DefaultStoreOptions =
        Inr \<lparr>GraphRoot = ''/var/lib/containers/storage'', RunRoot = ''/run/containers/storage'',
             GraphDriverName = ''overlay''\<rparr>\<rparr>"

section \<open>What an operation does to the committed rows\<close>

text \<open>
  \<open>keeps_database m\<close>: \<open>m\<close> never changes the committed rows.
  \<open>all_or_nothing m\<close>: when \<open>m\<close> returns an error, the committed rows are the ones
  it started from.
\<close>

definition keeps_database :: "'a io \<Rightarrow> bool" where
  "keeps_database m = (\<forall>c. database (snd (m c)) = database c)"

definition all_or_nothing :: "'a io \<Rightarrow> bool" where
  "all_or_nothing m = (\<forall>c e. fst (m c) = Inl e \<longrightarrow> database (snd (m c)) = database c)"

section \<open>The statements of the file, compiled\<close>

named_theorems compiled \<open>which statement texts the engine accepts\<close>

lemma select_container_id_compiles [compiled]:
  "sqlite_prepare
     ''SELECT ID FROM ContainerConfig WHERE ContainerConfig.Name=? OR (ContainerConfig.ID LIKE ?);''"
  by code_simp

lemma select_container_json_compiles [compiled]:
  "sqlite_prepare
     ''SELECT JSON FROM ContainerConfig WHERE ContainerConfig.Name=? OR (ContainerConfig.ID LIKE ?);''"
  by code_simp

lemma select_container_states_compiles [compiled]:
  "sqlite_prepare ''SELECT ID, JSON FROM ContainerState;''"
  by code_simp

lemma select_pod_states_compiles [compiled]:
  "sqlite_prepare ''SELECT ID, JSON FROM PodState;''"
  by code_simp

lemma select_volume_states_compiles [compiled]:
  "sqlite_prepare ''SELECT Name, JSON FROM VolumeState;''"
  by code_simp

text \<open>
  The three statements that \<^verbatim>\<open>Refresh\<close> writes the states back with, and the one of
  \<^verbatim>\<open>SaveVolume\<close>, put \<^verbatim>\<open>TABLE\<close> where the table name belongs: the engine rejects them.
\<close>

lemma update_table_container_state_rejected [compiled]:
  "\<not> sqlite_prepare ''UPDATE TABLE ContainerState SET JSON=? WHERE ID=?;''"
  by code_simp

lemma update_table_pod_state_rejected [compiled]:
  "\<not> sqlite_prepare ''UPDATE TABLE PodState SET JSON=? WHERE ID=?;''"
  by code_simp

lemma update_table_volume_state_rejected [compiled]:
  "\<not> sqlite_prepare ''UPDATE TABLE VolumeState SET JSON=? WHERE Name=?;''"
  by code_simp

lemma update_container_state_compiles [compiled]:
  "sqlite_prepare ''UPDATE ContainerState SET JSON=? WHERE ID=?;''"
  by code_simp

lemma delete_exit_codes_compiles [compiled]:
  "sqlite_prepare ''DELETE FROM ContainerExitCode;''"
  by code_simp

lemma delete_exec_sessions_compiles [compiled]:
  "sqlite_prepare ''DELETE FROM ContainerExecSession;''"
  by code_simp

lemma select_db_config_compiles [compiled]:
  "sqlite_prepare
     ''SELECT Os, StaticDir, TmpDir, GraphRoot, RunRoot, GraphDriver, VolumeDir FROM DBConfig;''"
  by code_simp

lemma createRow_compiles [compiled]: "sqlite_prepare createRow"
  by code_simp

lemma insert_exit_code_compiles [compiled]:
  "sqlite_prepare ''INSERT INTO ContainerExitCode VALUES (?, ?, ?);''"
  by code_simp

lemma select_exit_code_compiles [compiled]:
  "sqlite_prepare ''SELECT ExitCode FROM ContainerExitCode WHERE ID=?;''"
  by code_simp

lemma select_exit_timestamp_compiles [compiled]:
  "sqlite_prepare ''SELECT Timestamp FROM ContainerExitCode WHERE ID=?;''"
  by code_simp

lemma prune_exit_codes_compiles [compiled]:
  "sqlite_prepare ''DELETE FROM ContainerExitCode WHERE (Timestamp <= ?);''"
  by code_simp

lemma select_volume_users_compiles [compiled]:
  "sqlite_prepare ''SELECT ContainerID FROM ContainerVolume WHERE VolumeName=?;''"
  by code_simp

lemma delete_volume_config_compiles [compiled]:
  "sqlite_prepare ''DELETE FROM VolumeConfig WHERE Name=?;''"
  by code_simp

lemma delete_volume_state_compiles [compiled]:
  "sqlite_prepare ''DELETE FROM VolumeState WHERE Name=?;''"
  by code_simp

lemma select_volume_state_compiles [compiled]:
  "sqlite_prepare ''SELECT JSON FROM VolumeState WHERE Name=?;''"
  by code_simp


section \<open>Running an operation on a concrete store\<close>

lemmas run_simps = and_then_def wrap_def rollback_on_error_def tx_Rollback_def ok_def fail_def
  conn_Query_def conn_QueryRow_def conn_Begin_def tx_Exec_def tx_Query_def tx_Commit_def
  rows_Scan_def result_RowsAffected_def driver_call_def

section \<open>Transactions are all or nothing\<close>

lemma driver_call_database [simp]: "database (snd (driver_call c)) = database c"
  by (simp add: driver_call_def)

lemma keeps_all_or_nothing: "keeps_database m \<Longrightarrow> all_or_nothing m"
  by (simp add: keeps_database_def all_or_nothing_def)

lemma keeps_ok [intro!]: "keeps_database (ok a)"
  by (simp add: keeps_database_def ok_def)

lemma keeps_fail [intro!]: "keeps_database (fail e)"
  by (simp add: keeps_database_def fail_def)

lemma keeps_and_then [intro!]:
  "keeps_database m \<Longrightarrow> (\<And>a. keeps_database (f a)) \<Longrightarrow> keeps_database (and_then m f)"
  unfolding keeps_database_def and_then_def
  by (auto split: prod.splits sum.splits) (metis snd_conv)+

lemma all_or_nothing_and_then:
  "keeps_database m \<Longrightarrow> (\<And>a. all_or_nothing (f a)) \<Longrightarrow> all_or_nothing (and_then m f)"
  unfolding keeps_database_def all_or_nothing_def and_then_def
  by (auto split: prod.splits sum.splits) (metis fst_conv snd_conv)+

lemma all_or_nothing_rollback:
  "all_or_nothing m \<Longrightarrow> all_or_nothing (rollback_on_error tx m)"
  unfolding all_or_nothing_def rollback_on_error_def tx_Rollback_def
  by (auto split: prod.splits sum.splits) (metis fst_conv snd_conv)+

lemma keeps_wrap_Query [intro!]: "keeps_database (wrap msg (conn_Query sql sel))"
  unfolding keeps_database_def wrap_def conn_Query_def driver_call_def
  by (auto split: prod.splits sum.splits if_splits bool.splits)

lemma keeps_wrap_Begin [intro!]: "keeps_database (wrap msg conn_Begin)"
  unfolding keeps_database_def wrap_def conn_Begin_def driver_call_def
  by (auto split: prod.splits sum.splits if_splits bool.splits)

lemma keeps_wrap_Exec [intro!]: "keeps_database (wrap msg (tx_Exec sql run tx))"
  unfolding keeps_database_def wrap_def tx_Exec_def driver_call_def
  by (auto split: prod.splits sum.splits if_splits bool.splits)

lemma keeps_wrap_tx_Query [intro!]: "keeps_database (wrap msg (tx_Query sql sel tx))"
  unfolding keeps_database_def wrap_def tx_Query_def driver_call_def
  by (auto split: prod.splits sum.splits if_splits bool.splits)

lemma all_or_nothing_Commit: "all_or_nothing (wrap msg (tx_Commit tx))"
  unfolding all_or_nothing_def wrap_def tx_Commit_def driver_call_def
  by (auto split: prod.splits sum.splits if_splits bool.splits)

lemma rows_Scan_database: "rows_Scan c = (r, c') \<Longrightarrow> database c' = database c"
  by (auto simp add: rows_Scan_def driver_call_def split: prod.splits bool.splits)

lemma scan_all_database: "database (snd (scan_all msg rs acc c)) = database c"
proof (induction rs arbitrary: acc c)
  case Nil
  show ?case by simp
next
  case (Cons r rs)
  show ?case using Cons.IH
    by (auto split: prod.splits sum.splits dest: rows_Scan_database)
qed

lemma keeps_scan_all [intro!]: "keeps_database (scan_all msg rs acc)"
  by (simp add: keeps_database_def scan_all_database)

lemma reset_states_database: "database (snd (reset_states msgs cd rs m c)) = database c"
proof (induction rs arbitrary: m c)
  case Nil
  show ?case by simp
next
  case (Cons r rs)
  show ?case using Cons.IH
    by (auto split: prod.splits sum.splits option.splits dest: rows_Scan_database)
qed

lemma keeps_reset_states [intro!]: "keeps_database (reset_states msgs cd rs m)"
  by (simp add: keeps_database_def reset_states_database)

lemma tx_Exec_database: "tx_Exec sql run tx c = (r, c') \<Longrightarrow> database c' = database c"
  by (auto simp add: tx_Exec_def driver_call_def split: prod.splits bool.splits if_splits)

lemma write_states_database: "database (snd (write_states sql msg upd m tx c)) = database c"
proof (induction m arbitrary: tx c)
  case Nil
  show ?case by simp
next
  case (Cons e m)
  show ?case using Cons.IH
    by (auto split: prod.splits sum.splits dest: tx_Exec_database)
qed

lemma keeps_write_states [intro!]: "keeps_database (write_states sql msg upd m tx)"
  by (simp add: keeps_database_def write_states_database)

lemma all_or_nothing_refresh_conn: "all_or_nothing (refresh_conn cc pc vc)"
  unfolding refresh_conn_def
  by (intro all_or_nothing_and_then all_or_nothing_rollback all_or_nothing_Commit
        keeps_wrap_Query keeps_wrap_Begin keeps_wrap_Exec keeps_reset_states keeps_write_states)

text \<open>
  C3: if any step of \<^verbatim>\<open>Refresh\<close> fails, whatever the step and whatever the reason
  (an I/O failure of any driver call, a rejected statement, a state that does not
  decode or encode, a closed store), the committed rows of every table are exactly
  the rows from before the call.
\<close>

theorem Refresh_all_or_nothing:
  "Refresh cc pc vc s = (Inl e, s') \<Longrightarrow> database (conn s') = database (conn s)"
proof -
  assume r: "Refresh cc pc vc s = (Inl e, s')"
  show ?thesis
  proof (cases "valid s")
    case False
    with r show ?thesis by (simp add: Refresh_def)
  next
    case True
    obtain res c where rc: "refresh_conn cc pc vc (conn s) = (res, c)"
      by (cases "refresh_conn cc pc vc (conn s)")
    with r True have "res = Inl e" and "s' = s\<lparr>conn := c\<rparr>"
      by (simp_all add: Refresh_def)
    moreover have "database c = database (conn s)"
      using all_or_nothing_refresh_conn [of cc pc vc] rc \<open>res = Inl e\<close>
      unfolding all_or_nothing_def by (metis fst_conv snd_conv)
    ultimately show ?thesis by simp
  qed
qed


text \<open>
  A store with an exit code and no state rows, in which the commit (driver call 6)
  fails: both \<^verbatim>\<open>DELETE\<close>s ran inside the transaction, and the exit code is still there.
\<close>

theorem Refresh_all_or_nothing_witness:
  "Refresh plain_codec plain_codec plain_codec
     (open_store (empty_db\<lparr>ContainerExitCode := [(''c1'', 100, 137)]\<rparr>) [6])
   = (Inl (ErrSql ''committing transaction'' IOFault),
      \<lparr>valid = True,
        conn = \<lparr>database = empty_db\<lparr>ContainerExitCode := [(''c1'', 100, 137)]\<rparr>,
                calls = 7, faults = [6]\<rparr>,
        runtime = example_runtime\<rparr>)
   \<and> database (conn \<lparr>valid = True,
        conn = \<lparr>database = empty_db\<lparr>ContainerExitCode := [(''c1'', 100, 137)]\<rparr>,
                calls = 7, faults = [6]\<rparr>,
        runtime = example_runtime\<rparr>)
     = database (conn (open_store (empty_db\<lparr>ContainerExitCode := [(''c1'', 100, 137)]\<rparr>) [6]))"
proof -
  have run: "Refresh plain_codec plain_codec plain_codec
     (open_store (empty_db\<lparr>ContainerExitCode := [(''c1'', 100, 137)]\<rparr>) [6])
   = (Inl (ErrSql ''committing transaction'' IOFault),
      \<lparr>valid = True,
        conn = \<lparr>database = empty_db\<lparr>ContainerExitCode := [(''c1'', 100, 137)]\<rparr>,
                calls = 7, faults = [6]\<rparr>,
        runtime = example_runtime\<rparr>)"
    by (simp add: Refresh_def refresh_conn_def run_simps compiled open_store_def plain_codec_def
          delete_ContainerExitCode_def delete_ContainerExecSession_def empty_db_def)
  from Refresh_all_or_nothing [OF run] run show ?thesis by simp
qed


section \<open>When no driver call fails\<close>

lemma driver_call_no_fault:
  "faults c = [] \<Longrightarrow> driver_call c = (False, c\<lparr>calls := Suc (calls c)\<rparr>)"
  by (simp add: driver_call_def)

lemma scan_all_no_fault:
  "faults c = [] \<Longrightarrow> scan_all msg rs acc c = (Inr (acc @ rs), c\<lparr>calls := calls c + length rs\<rparr>)"
proof (induction rs arbitrary: acc c)
  case Nil
  then show ?case by simp
next
  case (Cons r rs)
  then show ?case by (simp add: rows_Scan_def driver_call_no_fault)
qed

lemmas no_fault_simps = and_then_def wrap_def rollback_on_error_def tx_Rollback_def ok_def fail_def
  conn_Query_def conn_QueryRow_def conn_Begin_def tx_Exec_def tx_Query_def tx_Commit_def
  rows_Scan_def result_RowsAffected_def driver_call_no_fault scan_all_no_fault

section \<open>Removing a volume\<close>

lemma RemoveVolume_no_fault:
  assumes "valid s" and "faults (conn s) = []"
  shows "RemoveVolume s v =
     (if volume_users (vol_Name v) (database (conn s)) \<noteq> [] then
        (Inl (ErrVolumeBeingUsed (vol_Name v) (volume_users (vol_Name v) (database (conn s)))),
         s\<lparr>conn := (conn s)\<lparr>calls := calls (conn s) + 2
                  + length (volume_users (vol_Name v) (database (conn s)))\<rparr>\<rparr>)
      else
        (Inr (),
         s\<lparr>conn := (conn s)\<lparr>calls := calls (conn s) + 5,
              database := (database (conn s))
                \<lparr>VolumeConfig := filter (\<lambda>r. VC_Name r \<noteq> vol_Name v) (VolumeConfig (database (conn s))),
                 VolumeState := filter (\<lambda>r. fst r \<noteq> vol_Name v) (VolumeState (database (conn s))),
                 ContainerVolume := filter (\<lambda>r. snd r \<noteq> vol_Name v) (ContainerVolume (database (conn s)))\<rparr>\<rparr>\<rparr>))"
  using assms
  by (simp add: RemoveVolume_def no_fault_simps compiled delete_VolumeConfig_def
        delete_VolumeState_def)

lemma no_users_filter:
  "volume_users name d = [] \<Longrightarrow> filter (\<lambda>r. snd r \<noteq> name) (ContainerVolume d) = ContainerVolume d"
  by (auto simp add: volume_users_def filter_empty_conv filter_id_conv)

lemma all_or_nothing_if:
  "all_or_nothing a \<Longrightarrow> all_or_nothing b \<Longrightarrow> all_or_nothing (if P then a else b)"
  by simp

lemma all_or_nothing_fail: "all_or_nothing (fail e)"
  by (simp add: keeps_all_or_nothing keeps_fail)

lemma lift_all_or_nothing:
  assumes "all_or_nothing m"
      and "(case m (conn s) of (r, c) \<Rightarrow> (r, s\<lparr>conn := c\<rparr>)) = (Inl e, s')"
  shows "database (conn s') = database (conn s)"
proof -
  obtain r c where rc: "m (conn s) = (r, c)" by (cases "m (conn s)")
  with assms(2) have "r = Inl e" and s': "s' = s\<lparr>conn := c\<rparr>" by simp_all
  with assms(1) rc have "database c = database (conn s)"
    unfolding all_or_nothing_def by (metis fst_conv snd_conv)
  with s' show ?thesis by simp
qed

lemma RemoveVolume_all_or_nothing:
  assumes "RemoveVolume s v = (Inl e, s')"
  shows "database (conn s') = database (conn s)"
proof (cases "valid s")
  case False
  with assms show ?thesis by (simp add: RemoveVolume_def)
next
  case True
  let ?m = "and_then (wrap ''beginning volume %s removal transaction'' conn_Begin) (\<lambda>tx.
              rollback_on_error tx (
                and_then (wrap ''querying for containers using volume %s''
                            (tx_Query ''SELECT ContainerID FROM ContainerVolume WHERE VolumeName=?;''
                               (volume_users (vol_Name v)) tx)) (\<lambda>rows.
                and_then (scan_all ''error scanning row for containers using volume %s'' rows [])
                  (\<lambda>ctrs.
                if length ctrs > 0 then fail (ErrVolumeBeingUsed (vol_Name v) ctrs)
                else
                  and_then (wrap ''removing volume %s config from DB''
                              (tx_Exec ''DELETE FROM VolumeConfig WHERE Name=?;''
                                 (delete_VolumeConfig (vol_Name v)) tx)) (\<lambda>r1.
                  and_then (wrap ''removing volume %s state from DB''
                              (tx_Exec ''DELETE FROM VolumeState WHERE Name=?;''
                                 (delete_VolumeState (vol_Name v)) (fst r1))) (\<lambda>r2.
                  wrap ''committing transaction to remove volume %s'' (tx_Commit (fst r2))))))))"
  have a: "all_or_nothing ?m"
    by (intro all_or_nothing_and_then all_or_nothing_rollback all_or_nothing_if
          all_or_nothing_fail all_or_nothing_Commit keeps_wrap_Begin keeps_wrap_tx_Query
          keeps_scan_all keeps_wrap_Exec)
  have b: "(case ?m (conn s) of (r, c) \<Rightarrow> (r, s\<lparr>conn := c\<rparr>)) = (Inl e, s')"
    using assms True unfolding RemoveVolume_def by (simp only: not_True_eq_False if_False)
  show ?thesis by (rule lift_all_or_nothing [OF a b])
qed

text \<open>
  C6: on an open store, when no driver call fails: if a row of \<^verbatim>\<open>ContainerVolume\<close>
  names the volume, \<^verbatim>\<open>RemoveVolume\<close> fails with \<^verbatim>\<open>ErrVolumeBeingUsed\<close> carrying the
  IDs of the containers that use it, and no row is deleted; if none does, it succeeds
  and the rows of the volume are gone from \<^verbatim>\<open>VolumeConfig\<close> and \<^verbatim>\<open>VolumeState\<close>,
  every other row being as before. The deletions are one transaction: whenever
  \<^verbatim>\<open>RemoveVolume\<close> returns an error, for whatever reason, no row is deleted.
\<close>

theorem RemoveVolume_guarded_by_usage:
  assumes "valid s"
  shows "(faults (conn s) = [] \<longrightarrow>
           (volume_users (vol_Name v) (database (conn s)) \<noteq> [] \<longrightarrow>
              fst (RemoveVolume s v)
                = Inl (ErrVolumeBeingUsed (vol_Name v) (volume_users (vol_Name v) (database (conn s))))
              \<and> database (conn (snd (RemoveVolume s v))) = database (conn s))
         \<and> (volume_users (vol_Name v) (database (conn s)) = [] \<longrightarrow>
              fst (RemoveVolume s v) = Inr ()
              \<and> database (conn (snd (RemoveVolume s v)))
                  = (database (conn s))
                      \<lparr>VolumeConfig :=
                         filter (\<lambda>r. VC_Name r \<noteq> vol_Name v) (VolumeConfig (database (conn s))),
                       VolumeState :=
                         filter (\<lambda>r. fst r \<noteq> vol_Name v) (VolumeState (database (conn s)))\<rparr>))
       \<and> (\<forall>e. fst (RemoveVolume s v) = Inl e \<longrightarrow>
              database (conn (snd (RemoveVolume s v))) = database (conn s))"
proof -
  have "database (conn (snd (RemoveVolume s v))) = database (conn s)"
    if "fst (RemoveVolume s v) = Inl e" for e
    using that RemoveVolume_all_or_nothing [of s v e "snd (RemoveVolume s v)"]
    by (metis prod.collapse)
  then show ?thesis
    using assms by (simp add: RemoveVolume_no_fault no_users_filter)
qed

text \<open>
  A volume \<open>v\<close> used by container \<open>x\<close> cannot be removed; without the usage row it can.
\<close>

theorem RemoveVolume_guarded_by_usage_witness:
  "fst (RemoveVolume
          (open_store (empty_db\<lparr>VolumeConfig := [\<lparr>VC_Name = ''v'', VC_StorageID = None, VC_JSON = ''{}''\<rparr>],
                                VolumeState := [(''v'', ''{}'')],
                                ContainerVolume := [(''x'', ''v'')]\<rparr>) [])
          \<lparr>vol_valid = True, vol_Name = ''v'', vol_state = ''{}''\<rparr>)
     = Inl (ErrVolumeBeingUsed ''v'' [''x''])
   \<and> database (conn (snd (RemoveVolume
          (open_store (empty_db\<lparr>VolumeConfig := [\<lparr>VC_Name = ''v'', VC_StorageID = None, VC_JSON = ''{}''\<rparr>],
                                VolumeState := [(''v'', ''{}'')],
                                ContainerVolume := [(''x'', ''v'')]\<rparr>) [])
          \<lparr>vol_valid = True, vol_Name = ''v'', vol_state = ''{}''\<rparr>)))
     = empty_db\<lparr>VolumeConfig := [\<lparr>VC_Name = ''v'', VC_StorageID = None, VC_JSON = ''{}''\<rparr>],
                VolumeState := [(''v'', ''{}'')],
                ContainerVolume := [(''x'', ''v'')]\<rparr>
   \<and> fst (RemoveVolume
          (open_store (empty_db\<lparr>VolumeConfig := [\<lparr>VC_Name = ''v'', VC_StorageID = None, VC_JSON = ''{}''\<rparr>],
                                VolumeState := [(''v'', ''{}'')]\<rparr>) [])
          \<lparr>vol_valid = True, vol_Name = ''v'', vol_state = ''{}''\<rparr>)
     = Inr ()
   \<and> database (conn (snd (RemoveVolume
          (open_store (empty_db\<lparr>VolumeConfig := [\<lparr>VC_Name = ''v'', VC_StorageID = None, VC_JSON = ''{}''\<rparr>],
                                VolumeState := [(''v'', ''{}'')]\<rparr>) [])
          \<lparr>vol_valid = True, vol_Name = ''v'', vol_state = ''{}''\<rparr>)))
     = empty_db"
  using RemoveVolume_guarded_by_usage
          [of "open_store (empty_db\<lparr>VolumeConfig := [\<lparr>VC_Name = ''v'', VC_StorageID = None, VC_JSON = ''{}''\<rparr>],
                                VolumeState := [(''v'', ''{}'')],
                                ContainerVolume := [(''x'', ''v'')]\<rparr>) []"
              "\<lparr>vol_valid = True, vol_Name = ''v'', vol_state = ''{}''\<rparr>"]
        RemoveVolume_guarded_by_usage
          [of "open_store (empty_db\<lparr>VolumeConfig := [\<lparr>VC_Name = ''v'', VC_StorageID = None, VC_JSON = ''{}''\<rparr>],
                                VolumeState := [(''v'', ''{}'')]\<rparr>) []"
              "\<lparr>vol_valid = True, vol_Name = ''v'', vol_state = ''{}''\<rparr>"]
  by (simp add: open_store_def empty_db_def volume_users_def)

text \<open>
  C10: on an open store, when no driver call fails, \<^verbatim>\<open>RemoveVolume\<close> on a handle
  whose name has no row in \<^verbatim>\<open>VolumeConfig\<close> and no row in \<^verbatim>\<open>ContainerVolume\<close>
  returns success and leaves every row as it was. The last hypothesis is the foreign
  key of \<^verbatim>\<open>VolumeState\<close>: every state row belongs to a config row.
\<close>

theorem RemoveVolume_of_absent_volume_succeeds:
  assumes "valid s" and "faults (conn s) = []"
      and "vol_Name v \<notin> VC_Name ` set (VolumeConfig (database (conn s)))"
      and "vol_Name v \<notin> snd ` set (ContainerVolume (database (conn s)))"
      and "fst ` set (VolumeState (database (conn s)))
             \<subseteq> VC_Name ` set (VolumeConfig (database (conn s)))"
  shows "fst (RemoveVolume s v) = Inr ()
       \<and> database (conn (snd (RemoveVolume s v))) = database (conn s)"
proof -
  let ?d = "database (conn s)"
  have no_cfg: "\<And>r. r \<in> set (VolumeConfig ?d) \<Longrightarrow> VC_Name r \<noteq> vol_Name v"
    using assms(3) by (metis imageI)
  have no_use: "\<And>r. r \<in> set (ContainerVolume ?d) \<Longrightarrow> snd r \<noteq> vol_Name v"
    using assms(4) by (metis imageI)
  have no_st: "\<And>r. r \<in> set (VolumeState ?d) \<Longrightarrow> fst r \<noteq> vol_Name v"
    using assms(3,5) by (metis imageI subsetD)
  have u: "volume_users (vol_Name v) ?d = []"
    using no_use by (simp add: volume_users_def filter_empty_conv)
  have c: "filter (\<lambda>r. VC_Name r \<noteq> vol_Name v) (VolumeConfig ?d) = VolumeConfig ?d"
    using no_cfg by (simp add: filter_id_conv)
  have st: "filter (\<lambda>r. fst r \<noteq> vol_Name v) (VolumeState ?d) = VolumeState ?d"
    using no_st by (simp add: filter_id_conv)
  show ?thesis
    using assms(1,2) u c st by (simp add: RemoveVolume_no_fault no_users_filter)
qed

text \<open>Removing \<open>gone\<close> from a store that only knows the volume \<open>v\<close>.\<close>

theorem RemoveVolume_of_absent_volume_succeeds_witness:
  "fst (RemoveVolume
          (open_store (empty_db\<lparr>VolumeConfig := [\<lparr>VC_Name = ''v'', VC_StorageID = None, VC_JSON = ''{}''\<rparr>],
                                VolumeState := [(''v'', ''{}'')],
                                ContainerVolume := [(''x'', ''v'')]\<rparr>) [])
          \<lparr>vol_valid = True, vol_Name = ''gone'', vol_state = ''{}''\<rparr>)
     = Inr ()
   \<and> database (conn (snd (RemoveVolume
          (open_store (empty_db\<lparr>VolumeConfig := [\<lparr>VC_Name = ''v'', VC_StorageID = None, VC_JSON = ''{}''\<rparr>],
                                VolumeState := [(''v'', ''{}'')],
                                ContainerVolume := [(''x'', ''v'')]\<rparr>) [])
          \<lparr>vol_valid = True, vol_Name = ''gone'', vol_state = ''{}''\<rparr>)))
     = empty_db\<lparr>VolumeConfig := [\<lparr>VC_Name = ''v'', VC_StorageID = None, VC_JSON = ''{}''\<rparr>],
                VolumeState := [(''v'', ''{}'')],
                ContainerVolume := [(''x'', ''v'')]\<rparr>"
  using RemoveVolume_of_absent_volume_succeeds
          [of "open_store (empty_db\<lparr>VolumeConfig := [\<lparr>VC_Name = ''v'', VC_StorageID = None, VC_JSON = ''{}''\<rparr>],
                                VolumeState := [(''v'', ''{}'')],
                                ContainerVolume := [(''x'', ''v'')]\<rparr>) []"
              "\<lparr>vol_valid = True, vol_Name = ''gone'', vol_state = ''{}''\<rparr>"]
  by (simp add: open_store_def empty_db_def)


section \<open>Saving a container\<close>

lemma SaveContainer_no_fault:
  assumes "valid s" and "ctr_valid ctr" and "marshalState (ctr_state ctr) = Some stateJSON"
      and "faults (conn s) = []"
  shows "SaveContainer marshalState s ctr =
     (if affected (ctr_ID ctr) (ContainerState (database (conn s))) = 0 then
        (Inl ErrNoSuchCtr, s\<lparr>conn := (conn s)\<lparr>calls := calls (conn s) + 3\<rparr>\<rparr>,
         ctr\<lparr>ctr_valid := False\<rparr>)
      else
        (Inr (),
         s\<lparr>conn := (conn s)\<lparr>calls := calls (conn s) + 4,
              database := (database (conn s))
                \<lparr>ContainerState :=
                   set_json stateJSON (ctr_ID ctr) (ContainerState (database (conn s)))\<rparr>\<rparr>\<rparr>,
         ctr))"
  using assms
  by (simp add: SaveContainer_def no_fault_simps compiled update_ContainerState_def)

text \<open>
  C7: on an open store, for a live container handle whose state encodes, and when
  no driver call fails, \<^verbatim>\<open>SaveContainer\<close> runs the \<^verbatim>\<open>UPDATE\<close> on the row of the
  container's ID and looks at the number of rows affected. With zero rows affected
  it returns \<^verbatim>\<open>ErrNoSuchCtr\<close>, clears the handle's \<open>ctr_valid\<close> and commits nothing;
  with one row affected it commits, the row now holding the encoded state, and
  returns success with the handle as it was.
\<close>

theorem SaveContainer_checks_rows_affected:
  assumes "valid s" and "ctr_valid ctr" and "marshalState (ctr_state ctr) = Some stateJSON"
      and "faults (conn s) = []"
  shows "(affected (ctr_ID ctr) (ContainerState (database (conn s))) = 0 \<longrightarrow>
            SaveContainer marshalState s ctr
              = (Inl ErrNoSuchCtr, s\<lparr>conn := (conn s)\<lparr>calls := calls (conn s) + 3\<rparr>\<rparr>,
                 ctr\<lparr>ctr_valid := False\<rparr>))
       \<and> (affected (ctr_ID ctr) (ContainerState (database (conn s))) = 1 \<longrightarrow>
            SaveContainer marshalState s ctr
              = (Inr (),
                 s\<lparr>conn := (conn s)\<lparr>calls := calls (conn s) + 4,
                      database := (database (conn s))
                        \<lparr>ContainerState :=
                           set_json stateJSON (ctr_ID ctr) (ContainerState (database (conn s)))\<rparr>\<rparr>\<rparr>,
                 ctr))"
  using assms by (simp add: SaveContainer_no_fault)

text \<open>A store with the state row of \<open>c1\<close> only: saving \<open>c2\<close> fails, saving \<open>c1\<close> succeeds.\<close>

theorem SaveContainer_checks_rows_affected_witness:
  "SaveContainer Some (open_store (empty_db\<lparr>ContainerState := [(''c1'', ''old'')]\<rparr>) [])
       \<lparr>ctr_valid = True, ctr_ID = ''c2'', ctr_Pod = '''', ctr_state = ''new''\<rparr>
     = (Inl ErrNoSuchCtr,
        \<lparr>valid = True,
          conn = \<lparr>database = empty_db\<lparr>ContainerState := [(''c1'', ''old'')]\<rparr>, calls = 3, faults = []\<rparr>,
          runtime = example_runtime\<rparr>,
        \<lparr>ctr_valid = False, ctr_ID = ''c2'', ctr_Pod = '''', ctr_state = ''new''\<rparr>)
   \<and> SaveContainer Some (open_store (empty_db\<lparr>ContainerState := [(''c1'', ''old'')]\<rparr>) [])
       \<lparr>ctr_valid = True, ctr_ID = ''c1'', ctr_Pod = '''', ctr_state = ''new''\<rparr>
     = (Inr (),
        \<lparr>valid = True,
          conn = \<lparr>database = empty_db\<lparr>ContainerState := [(''c1'', ''new'')]\<rparr>, calls = 4, faults = []\<rparr>,
          runtime = example_runtime\<rparr>,
        \<lparr>ctr_valid = True, ctr_ID = ''c1'', ctr_Pod = '''', ctr_state = ''new''\<rparr>)"
  using SaveContainer_checks_rows_affected
          [where s = "open_store (empty_db\<lparr>ContainerState := [(''c1'', ''old'')]\<rparr>) []"
             and ctr = "\<lparr>ctr_valid = True, ctr_ID = ''c2'', ctr_Pod = '''', ctr_state = ''new''\<rparr>"
             and marshalState = Some and stateJSON = "''new''"]
        SaveContainer_checks_rows_affected
          [where s = "open_store (empty_db\<lparr>ContainerState := [(''c1'', ''old'')]\<rparr>) []"
             and ctr = "\<lparr>ctr_valid = True, ctr_ID = ''c1'', ctr_Pod = '''', ctr_state = ''new''\<rparr>"
             and marshalState = Some and stateJSON = "''new''"]
  by (simp add: open_store_def empty_db_def affected_def set_json_def)

section \<open>Invalidated handles\<close>

text \<open>
  C5 says that every operation on an invalidated handle fails before it issues a
  query, \<^verbatim>\<open>RemoveVolume\<close> included. \<^verbatim>\<open>RemoveVolume\<close> does not read \<^verbatim>\<open>volume.valid\<close>:
  on an invalidated handle it makes its five driver calls, deletes the rows of the
  volume of that name and returns success.
\<close>

theorem RemoveVolume_ignores_invalidated_handle:
  "\<not> vol_valid \<lparr>vol_valid = False, vol_Name = ''v'', vol_state = ''{}''\<rparr>
   \<and> RemoveVolume
       (open_store (empty_db\<lparr>VolumeConfig := [\<lparr>VC_Name = ''v'', VC_StorageID = None, VC_JSON = ''{}''\<rparr>],
                             VolumeState := [(''v'', ''{}'')]\<rparr>) [])
       \<lparr>vol_valid = False, vol_Name = ''v'', vol_state = ''{}''\<rparr>
     = (Inr (),
        \<lparr>valid = True, conn = \<lparr>database = empty_db, calls = 5, faults = []\<rparr>,
          runtime = example_runtime\<rparr>)"
  by (simp add: RemoveVolume_def run_simps compiled open_store_def empty_db_def
        delete_VolumeConfig_def delete_VolumeState_def volume_users_def affected_def)

text \<open>
  C5, amended: on an open store, the operations that read the flag fail on an
  invalidated handle with \<^verbatim>\<open>ErrCtrRemoved\<close>, \<^verbatim>\<open>ErrVolumeRemoved\<close> or
  \<^verbatim>\<open>ErrPodRemoved\<close>, and return the store as it was, the count of driver calls
  included: no query is issued. This holds for \<^verbatim>\<open>AddContainer\<close>, \<^verbatim>\<open>SaveContainer\<close>,
  \<^verbatim>\<open>UpdateVolume\<close>, \<^verbatim>\<open>SaveVolume\<close>, \<^verbatim>\<open>VolumeInUse\<close>, \<^verbatim>\<open>UpdatePod\<close> and
  \<^verbatim>\<open>SavePod\<close>.
\<close>

theorem invalidated_handles_fail_fast:
  assumes "valid s"
  shows "(\<not> ctr_valid ctr \<longrightarrow>
            AddContainer addContainer s ctr = (Inl ErrCtrRemoved, s, ctr)
          \<and> SaveContainer marshalCtr s ctr = (Inl ErrCtrRemoved, s, ctr))
       \<and> (\<not> vol_valid volume \<longrightarrow>
            UpdateVolume unmarshalVol s volume = (Inl ErrVolumeRemoved, s, volume)
          \<and> SaveVolume marshalVol s volume = (Inl ErrVolumeRemoved, s, volume)
          \<and> VolumeInUse s volume = (Inl ErrVolumeRemoved, s))
       \<and> (\<not> pod_valid pod \<longrightarrow>
            UpdatePod s pod = (Inl ErrPodRemoved, s, pod)
          \<and> SavePod s pod = (Inl ErrPodRemoved, s, pod))"
  using assms
  by (simp add: AddContainer_def SaveContainer_def UpdateVolume_def SaveVolume_def
        VolumeInUse_def UpdatePod_def SavePod_def)

text \<open>
  In the store of the witness the first driver call would fail; no operation gets there.
\<close>

theorem invalidated_handles_fail_fast_witness:
  "AddContainer (\<lambda>s ctr. (Inr (), s, ctr)) (open_store empty_db [0])
       \<lparr>ctr_valid = False, ctr_ID = ''c1'', ctr_Pod = '''', ctr_state = ''{}''\<rparr>
     = (Inl ErrCtrRemoved, open_store empty_db [0],
        \<lparr>ctr_valid = False, ctr_ID = ''c1'', ctr_Pod = '''', ctr_state = ''{}''\<rparr>)
   \<and> SaveContainer Some (open_store empty_db [0])
       \<lparr>ctr_valid = False, ctr_ID = ''c1'', ctr_Pod = '''', ctr_state = ''{}''\<rparr>
     = (Inl ErrCtrRemoved, open_store empty_db [0],
        \<lparr>ctr_valid = False, ctr_ID = ''c1'', ctr_Pod = '''', ctr_state = ''{}''\<rparr>)
   \<and> UpdateVolume Some (open_store empty_db [0])
       \<lparr>vol_valid = False, vol_Name = ''v'', vol_state = ''{}''\<rparr>
     = (Inl ErrVolumeRemoved, open_store empty_db [0],
        \<lparr>vol_valid = False, vol_Name = ''v'', vol_state = ''{}''\<rparr>)
   \<and> SaveVolume Some (open_store empty_db [0])
       \<lparr>vol_valid = False, vol_Name = ''v'', vol_state = ''{}''\<rparr>
     = (Inl ErrVolumeRemoved, open_store empty_db [0],
        \<lparr>vol_valid = False, vol_Name = ''v'', vol_state = ''{}''\<rparr>)
   \<and> VolumeInUse (open_store empty_db [0])
       \<lparr>vol_valid = False, vol_Name = ''v'', vol_state = ''{}''\<rparr>
     = (Inl ErrVolumeRemoved, open_store empty_db [0])
   \<and> UpdatePod (open_store empty_db [0]) \<lparr>pod_valid = False, pod_ID = ''p''\<rparr>
     = (Inl ErrPodRemoved, open_store empty_db [0], \<lparr>pod_valid = False, pod_ID = ''p''\<rparr>)
   \<and> SavePod (open_store empty_db [0]) \<lparr>pod_valid = False, pod_ID = ''p''\<rparr>
     = (Inl ErrPodRemoved, open_store empty_db [0], \<lparr>pod_valid = False, pod_ID = ''p''\<rparr>)"
  using invalidated_handles_fail_fast
          [where s = "open_store empty_db [0]"
             and ctr = "\<lparr>ctr_valid = False, ctr_ID = ''c1'', ctr_Pod = '''', ctr_state = ''{}''\<rparr>"
             and volume = "\<lparr>vol_valid = False, vol_Name = ''v'', vol_state = ''{}''\<rparr>"
             and pod = "\<lparr>pod_valid = False, pod_ID = ''p''\<rparr>"
             and addContainer = "\<lambda>s ctr. (Inr (), s, ctr)"
             and marshalCtr = Some and unmarshalVol = Some and marshalVol = Some]
  by (simp add: open_store_def)

section \<open>Containers of a pod\<close>

text \<open>
  C4 says that both plain entry points refuse a container of a pod with
  \<^verbatim>\<open>ErrInvalidArg\<close>. \<^verbatim>\<open>RemoveContainer\<close> refuses it with \<^verbatim>\<open>ErrPodExists\<close>.
\<close>

theorem RemoveContainer_pod_error_is_not_invalid_arg:
  "RemoveContainer (\<lambda>s ctr. (Inr (), s, ctr)) (open_store empty_db [])
       \<lparr>ctr_valid = True, ctr_ID = ''c1'', ctr_Pod = ''p1'', ctr_state = ''{}''\<rparr>
     = (Inl (ErrPodExists ''c1''), open_store empty_db [],
        \<lparr>ctr_valid = True, ctr_ID = ''c1'', ctr_Pod = ''p1'', ctr_state = ''{}''\<rparr>)
   \<and> ErrPodExists ''c1'' \<noteq> ErrInvalidArg"
  by (simp add: RemoveContainer_def open_store_def)

text \<open>
  C4, amended: on an open store, for a container whose config names a pod,
  \<^verbatim>\<open>AddContainer\<close> on a live handle returns \<^verbatim>\<open>ErrInvalidArg\<close> and \<^verbatim>\<open>RemoveContainer\<close>
  returns \<^verbatim>\<open>ErrPodExists\<close>; neither reaches the internal function that would touch
  the rows, and store and handle are returned as they were.
\<close>

theorem plain_entry_points_refuse_pod_containers:
  assumes "valid s" and "ctr_Pod ctr \<noteq> []"
  shows "(ctr_valid ctr \<longrightarrow> AddContainer addContainer s ctr = (Inl ErrInvalidArg, s, ctr))
       \<and> RemoveContainer removeContainer s ctr = (Inl (ErrPodExists (ctr_ID ctr)), s, ctr)"
  using assms by (simp add: AddContainer_def RemoveContainer_def)

text \<open>A live container of the pod \<open>p1\<close>, handed to both entry points.\<close>

theorem plain_entry_points_refuse_pod_containers_witness:
  "AddContainer (\<lambda>s ctr. (Inr (), s, ctr)) (open_store empty_db [])
       \<lparr>ctr_valid = True, ctr_ID = ''c1'', ctr_Pod = ''p1'', ctr_state = ''{}''\<rparr>
     = (Inl ErrInvalidArg, open_store empty_db [],
        \<lparr>ctr_valid = True, ctr_ID = ''c1'', ctr_Pod = ''p1'', ctr_state = ''{}''\<rparr>)
   \<and> RemoveContainer (\<lambda>s ctr. (Inr (), s, ctr)) (open_store empty_db [])
       \<lparr>ctr_valid = True, ctr_ID = ''c1'', ctr_Pod = ''p1'', ctr_state = ''{}''\<rparr>
     = (Inl (ErrPodExists ''c1''), open_store empty_db [],
        \<lparr>ctr_valid = True, ctr_ID = ''c1'', ctr_Pod = ''p1'', ctr_state = ''{}''\<rparr>)"
  using plain_entry_points_refuse_pod_containers
          [where s = "open_store empty_db []"
             and ctr = "\<lparr>ctr_valid = True, ctr_ID = ''c1'', ctr_Pod = ''p1'', ctr_state = ''{}''\<rparr>"
             and addContainer = "\<lambda>s ctr. (Inr (), s, ctr)"
             and removeContainer = "\<lambda>s ctr. (Inr (), s, ctr)"]
  by (simp add: open_store_def)


section \<open>The configuration record\<close>

lemma ValidateDBConfig_no_fault:
  assumes "valid s" and "faults (conn s) = []" and "DefaultStoreOptions env = Inr storeOpts"
  shows "ValidateDBConfig env s rt =
     (case DBConfig (database (conn s)) of
        [] \<Rightarrow>
          (Inr (),
           s\<lparr>conn := (conn s)\<lparr>calls := calls (conn s) + 4,
                database := (database (conn s))
                  \<lparr>DBConfig := [runtime_row env storeOpts (runtime s)]\<rparr>\<rparr>\<rparr>)
      | row # _ \<Rightarrow>
          (check_fields (config_checks row (runtime_row env storeOpts (runtime s))),
           s\<lparr>conn := (conn s)\<lparr>calls := Suc (calls (conn s))\<rparr>\<rparr>))"
  using assms
  by (simp add: ValidateDBConfig_def no_fault_simps compiled insert_DBConfig_def Let_def
        split: list.splits)

text \<open>
  C8: on an open store, when no driver call fails and \<^verbatim>\<open>storage.DefaultStoreOptions\<close>
  succeeds. With no row in \<^verbatim>\<open>DBConfig\<close>, \<^verbatim>\<open>ValidateDBConfig\<close> succeeds and the
  committed database holds exactly one row, the runtime's OS, directories, storage
  driver and volume path. With a row, no row is changed; the fields are compared in
  the order os, static dir, tmp dir, graph root, run root, graph driver, volume
  path, and the first one that differs makes the call fail with \<^verbatim>\<open>ErrDBBadConfig\<close>
  carrying the name of the field, the stored value and the runtime's value - for a
  changed graph root, the name \<^verbatim>\<open>graph root\<close>; when all seven agree, the call succeeds.
\<close>

theorem ValidateDBConfig_records_then_compares:
  assumes "valid s" and "faults (conn s) = []" and "DefaultStoreOptions env = Inr storeOpts"
  shows "(DBConfig (database (conn s)) = [] \<longrightarrow>
            ValidateDBConfig env s rt
              = (Inr (),
                 s\<lparr>conn := (conn s)\<lparr>calls := calls (conn s) + 4,
                      database := (database (conn s))
                        \<lparr>DBConfig := [runtime_row env storeOpts (runtime s)]\<rparr>\<rparr>\<rparr>))
       \<and> (\<forall>row rest ours.
            DBConfig (database (conn s)) = row # rest
            \<and> ours = runtime_row env storeOpts (runtime s) \<longrightarrow>
              database (conn (snd (ValidateDBConfig env s rt))) = database (conn s)
            \<and> (DB_Os row \<noteq> DB_Os ours \<longrightarrow>
                 fst (ValidateDBConfig env s rt)
                   = Inl (ErrDBBadConfig ''os'' (DB_Os row) (DB_Os ours)))
            \<and> (DB_Os row = DB_Os ours \<and> DB_StaticDir row \<noteq> DB_StaticDir ours \<longrightarrow>
                 fst (ValidateDBConfig env s rt)
                   = Inl (ErrDBBadConfig ''static dir'' (DB_StaticDir row) (DB_StaticDir ours)))
            \<and> (DB_Os row = DB_Os ours \<and> DB_StaticDir row = DB_StaticDir ours
                 \<and> DB_TmpDir row \<noteq> DB_TmpDir ours \<longrightarrow>
                 fst (ValidateDBConfig env s rt)
                   = Inl (ErrDBBadConfig ''tmp dir'' (DB_TmpDir row) (DB_TmpDir ours)))
            \<and> (DB_Os row = DB_Os ours \<and> DB_StaticDir row = DB_StaticDir ours
                 \<and> DB_TmpDir row = DB_TmpDir ours
                 \<and> DB_GraphRoot row \<noteq> DB_GraphRoot ours \<longrightarrow>
                 fst (ValidateDBConfig env s rt)
                   = Inl (ErrDBBadConfig ''graph root'' (DB_GraphRoot row) (DB_GraphRoot ours)))
            \<and> (DB_Os row = DB_Os ours \<and> DB_StaticDir row = DB_StaticDir ours
                 \<and> DB_TmpDir row = DB_TmpDir ours \<and> DB_GraphRoot row = DB_GraphRoot ours
                 \<and> DB_RunRoot row \<noteq> DB_RunRoot ours \<longrightarrow>
                 fst (ValidateDBConfig env s rt)
                   = Inl (ErrDBBadConfig ''run root'' (DB_RunRoot row) (DB_RunRoot ours)))
            \<and> (DB_Os row = DB_Os ours \<and> DB_StaticDir row = DB_StaticDir ours
                 \<and> DB_TmpDir row = DB_TmpDir ours \<and> DB_GraphRoot row = DB_GraphRoot ours
                 \<and> DB_RunRoot row = DB_RunRoot ours
                 \<and> DB_GraphDriver row \<noteq> DB_GraphDriver ours \<longrightarrow>
                 fst (ValidateDBConfig env s rt)
                   = Inl (ErrDBBadConfig ''graph driver'' (DB_GraphDriver row) (DB_GraphDriver ours)))
            \<and> (DB_Os row = DB_Os ours \<and> DB_StaticDir row = DB_StaticDir ours
                 \<and> DB_TmpDir row = DB_TmpDir ours \<and> DB_GraphRoot row = DB_GraphRoot ours
                 \<and> DB_RunRoot row = DB_RunRoot ours \<and> DB_GraphDriver row = DB_GraphDriver ours
                 \<and> DB_VolumeDir row \<noteq> DB_VolumeDir ours \<longrightarrow>
                 fst (ValidateDBConfig env s rt)
                   = Inl (ErrDBBadConfig ''volume path'' (DB_VolumeDir row) (DB_VolumeDir ours)))
            \<and> (DB_Os row = DB_Os ours \<and> DB_StaticDir row = DB_StaticDir ours
                 \<and> DB_TmpDir row = DB_TmpDir ours \<and> DB_GraphRoot row = DB_GraphRoot ours
                 \<and> DB_RunRoot row = DB_RunRoot ours \<and> DB_GraphDriver row = DB_GraphDriver ours
                 \<and> DB_VolumeDir row = DB_VolumeDir ours \<longrightarrow>
                 fst (ValidateDBConfig env s rt) = Inr ()))"
  using assms
  by (simp add: ValidateDBConfig_no_fault config_checks_def checkField_def)


text \<open>
  The first open writes the row; an open after the graph root has moved finds the
  old one and fails naming \<^verbatim>\<open>graph root\<close>.
\<close>

theorem ValidateDBConfig_records_then_compares_witness:
  "ValidateDBConfig example_env (open_store empty_db []) example_runtime
     = (Inr (),
        \<lparr>valid = True,
          conn = \<lparr>database = empty_db
                    \<lparr>DBConfig :=
                       [\<lparr>DB_ID = 1, DB_SchemaVersion = 1, DB_Os = ''linux'',
                         DB_StaticDir = ''/var/lib/containers/storage/libpod'',
                         DB_TmpDir = ''/run/libpod'',
                         DB_GraphRoot = ''/var/lib/containers/storage'',
                         DB_RunRoot = ''/run/containers/storage'',
                         DB_GraphDriver = ''overlay'',
                         DB_VolumeDir = ''/var/lib/containers/storage/volumes''\<rparr>]\<rparr>,
                  calls = 4, faults = []\<rparr>,
          runtime = example_runtime\<rparr>)
   \<and> fst (ValidateDBConfig example_env
          (open_store (empty_db
             \<lparr>DBConfig :=
                [\<lparr>DB_ID = 1, DB_SchemaVersion = 1, DB_Os = ''linux'',
                  DB_StaticDir = ''/var/lib/containers/storage/libpod'',
                  DB_TmpDir = ''/run/libpod'',
                  DB_GraphRoot = ''/mnt/old/storage'',
                  DB_RunRoot = ''/run/containers/storage'',
                  DB_GraphDriver = ''overlay'',
                  DB_VolumeDir = ''/var/lib/containers/storage/volumes''\<rparr>]\<rparr>) [])
          example_runtime)
     = Inl (ErrDBBadConfig ''graph root'' ''/mnt/old/storage'' ''/var/lib/containers/storage'')"
  using ValidateDBConfig_records_then_compares
          [where s = "open_store empty_db []" and env = example_env and rt = example_runtime
             and storeOpts = "\<lparr>GraphRoot = ''/var/lib/containers/storage'',
                               RunRoot = ''/run/containers/storage'',
                               GraphDriverName = ''overlay''\<rparr>"]
        ValidateDBConfig_records_then_compares
          [where s = "open_store (empty_db
             \<lparr>DBConfig :=
                [\<lparr>DB_ID = 1, DB_SchemaVersion = 1, DB_Os = ''linux'',
                  DB_StaticDir = ''/var/lib/containers/storage/libpod'',
                  DB_TmpDir = ''/run/libpod'',
                  DB_GraphRoot = ''/mnt/old/storage'',
                  DB_RunRoot = ''/run/containers/storage'',
                  DB_GraphDriver = ''overlay'',
                  DB_VolumeDir = ''/var/lib/containers/storage/volumes''\<rparr>]\<rparr>) []"
             and env = example_env and rt = example_runtime
             and storeOpts = "\<lparr>GraphRoot = ''/var/lib/containers/storage'',
                               RunRoot = ''/run/containers/storage'',
                               GraphDriverName = ''overlay''\<rparr>"]
  by (simp add: open_store_def example_env_def example_runtime_def runtime_row_def
        schemaVersion_def empty_db_def)

section \<open>Exit codes\<close>

lemma AddContainerExitCode_no_fault:
  assumes "valid s" and "faults (conn s) = []" and "k \<noteq> []"
      and "k \<notin> fst ` set (ContainerExitCode (database (conn s)))"
  shows "AddContainerExitCode id_is_key now s k exitCode =
     (Inr (),
      s\<lparr>conn := (conn s)\<lparr>calls := calls (conn s) + 3,
           database := (database (conn s))
             \<lparr>ContainerExitCode :=
                ContainerExitCode (database (conn s)) @ [(k, now, exitCode)]\<rparr>\<rparr>\<rparr>)"
  using assms
  by (simp add: AddContainerExitCode_def no_fault_simps compiled insert_ContainerExitCode_def)

lemma exit_code_rows_absent:
  "k \<notin> fst ` set (ContainerExitCode d) \<Longrightarrow> exit_code_rows k d = []"
  by (auto simp add: exit_code_rows_def filter_empty_conv intro: rev_image_eqI)

lemma GetContainerExitCode_no_fault:
  assumes "valid s" and "faults (conn s) = []" and "k \<noteq> []"
  shows "fst (GetContainerExitCode s k) =
     (case exit_code_rows k (database (conn s)) of
        [] \<Rightarrow> Inl (ErrNoSuchExitCode k)
      | r # _ \<Rightarrow> Inr (snd (snd r)))"
  using assms
  by (simp add: GetContainerExitCode_def no_fault_simps compiled split: list.splits)

lemma GetContainerExitCodeTimeStamp_no_fault:
  assumes "valid s" and "faults (conn s) = []" and "k \<noteq> []"
  shows "fst (GetContainerExitCodeTimeStamp s k) =
     (case exit_code_rows k (database (conn s)) of
        [] \<Rightarrow> Inl (ErrNoSuchExitCode k)
      | r # _ \<Rightarrow> Inr (fst (snd r)))"
  using assms
  by (simp add: GetContainerExitCodeTimeStamp_def no_fault_simps compiled split: list.splits)

lemma PruneContainerExitCodes_no_fault:
  assumes "valid s" and "faults (conn s) = []"
  shows "PruneContainerExitCodes now s =
     (Inr (),
      s\<lparr>conn := (conn s)\<lparr>calls := calls (conn s) + 3,
           database := (database (conn s))
             \<lparr>ContainerExitCode :=
                filter (\<lambda>r. \<not> fst (snd r) \<le> now - 300) (ContainerExitCode (database (conn s)))\<rparr>\<rparr>\<rparr>)"
  using assms
  by (simp add: PruneContainerExitCodes_def no_fault_simps compiled delete_exit_codes_until_def)

text \<open>
  C9 says that after \<^verbatim>\<open>AddContainerExitCode(id, code)\<close> the getter returns that
  code, for every container ID. When the container already has a record this fails,
  whatever the table declaration: with \<open>ID\<close> a key the \<^verbatim>\<open>INSERT\<close> is refused, without
  a key the getter reads the older row. In both cases the getter returns the old
  code 1, not 137.
\<close>

theorem exit_code_second_record_not_read:
  "fst (GetContainerExitCode
          (snd (AddContainerExitCode False 200
                  (open_store (empty_db\<lparr>ContainerExitCode := [(''c1'', 100, 1)]\<rparr>) []) ''c1'' 137))
          ''c1'')
     = Inr 1
   \<and> fst (AddContainerExitCode True 200
            (open_store (empty_db\<lparr>ContainerExitCode := [(''c1'', 100, 1)]\<rparr>) []) ''c1'' 137)
     = Inl (ErrSql ''adding container %s exit code'' ConstraintFailed)
   \<and> fst (GetContainerExitCode
          (snd (AddContainerExitCode True 200
                  (open_store (empty_db\<lparr>ContainerExitCode := [(''c1'', 100, 1)]\<rparr>) []) ''c1'' 137))
          ''c1'')
     = Inr 1
   \<and> (1 :: 32 word) \<noteq> 137"
  by (simp add: AddContainerExitCode_def GetContainerExitCode_def run_simps compiled
        insert_ContainerExitCode_def exit_code_rows_def open_store_def empty_db_def)

text \<open>
  C9, amended: on an open store, when no driver call fails, for a non-empty container
  ID. If the container has no record, both getters fail with \<^verbatim>\<open>ErrNoSuchExitCode\<close>,
  \<^verbatim>\<open>AddContainerExitCode\<close> succeeds and adds the row (ID, current time, code), and
  after it \<^verbatim>\<open>GetContainerExitCode\<close> returns that code and
  \<^verbatim>\<open>GetContainerExitCodeTimeStamp\<close> that time. \<^verbatim>\<open>PruneContainerExitCodes\<close> succeeds and
  keeps exactly the records whose timestamp is later than the current time minus
  300 seconds; every other table is as before.
\<close>

theorem exit_code_bookkeeping:
  assumes "valid s" and "faults (conn s) = []" and "k \<noteq> []"
  shows "(k \<notin> fst ` set (ContainerExitCode (database (conn s))) \<longrightarrow>
            fst (GetContainerExitCode s k) = Inl (ErrNoSuchExitCode k)
          \<and> fst (GetContainerExitCodeTimeStamp s k) = Inl (ErrNoSuchExitCode k)
          \<and> fst (AddContainerExitCode id_is_key now s k exitCode) = Inr ()
          \<and> database (conn (snd (AddContainerExitCode id_is_key now s k exitCode)))
              = (database (conn s))
                  \<lparr>ContainerExitCode :=
                     ContainerExitCode (database (conn s)) @ [(k, now, exitCode)]\<rparr>
          \<and> fst (GetContainerExitCode
                   (snd (AddContainerExitCode id_is_key now s k exitCode)) k) = Inr exitCode
          \<and> fst (GetContainerExitCodeTimeStamp
                   (snd (AddContainerExitCode id_is_key now s k exitCode)) k) = Inr now)
       \<and> fst (PruneContainerExitCodes now s) = Inr ()
       \<and> database (conn (snd (PruneContainerExitCodes now s)))
           = (database (conn s))
               \<lparr>ContainerExitCode :=
                  filter (\<lambda>r. now - 300 < fst (snd r)) (ContainerExitCode (database (conn s)))\<rparr>"
proof -
  have prune: "fst (PruneContainerExitCodes now s) = Inr ()
       \<and> database (conn (snd (PruneContainerExitCodes now s)))
           = (database (conn s))
               \<lparr>ContainerExitCode :=
                  filter (\<lambda>r. now - 300 < fst (snd r)) (ContainerExitCode (database (conn s)))\<rparr>"
    using assms(1,2) by (simp add: PruneContainerExitCodes_no_fault not_le)
  have fresh: "fst (GetContainerExitCode s k) = Inl (ErrNoSuchExitCode k)
          \<and> fst (GetContainerExitCodeTimeStamp s k) = Inl (ErrNoSuchExitCode k)
          \<and> fst (AddContainerExitCode id_is_key now s k exitCode) = Inr ()
          \<and> database (conn (snd (AddContainerExitCode id_is_key now s k exitCode)))
              = (database (conn s))
                  \<lparr>ContainerExitCode :=
                     ContainerExitCode (database (conn s)) @ [(k, now, exitCode)]\<rparr>
          \<and> fst (GetContainerExitCode
                   (snd (AddContainerExitCode id_is_key now s k exitCode)) k) = Inr exitCode
          \<and> fst (GetContainerExitCodeTimeStamp
                   (snd (AddContainerExitCode id_is_key now s k exitCode)) k) = Inr now"
    if absent: "k \<notin> fst ` set (ContainerExitCode (database (conn s)))"
  proof -
    let ?s' = "s\<lparr>conn := (conn s)\<lparr>calls := calls (conn s) + 3,
           database := (database (conn s))
             \<lparr>ContainerExitCode :=
                ContainerExitCode (database (conn s)) @ [(k, now, exitCode)]\<rparr>\<rparr>\<rparr>"
    have add: "AddContainerExitCode id_is_key now s k exitCode = (Inr (), ?s')"
      using assms absent by (rule AddContainerExitCode_no_fault)
    have rows: "exit_code_rows k (database (conn ?s')) = [(k, now, exitCode)]"
      using exit_code_rows_absent [OF absent] by (simp add: exit_code_rows_def)
    have v: "valid ?s'" and f: "faults (conn ?s') = []"
      using assms by simp_all
    show ?thesis
      using GetContainerExitCode_no_fault [OF assms]
        GetContainerExitCodeTimeStamp_no_fault [OF assms]
        GetContainerExitCode_no_fault [OF v f assms(3)]
        GetContainerExitCodeTimeStamp_no_fault [OF v f assms(3)]
        exit_code_rows_absent [OF absent] rows
      by (simp add: add)
  qed
  from prune fresh show ?thesis by blast
qed

text \<open>
  Container \<open>c1\<close> exits with 137 at time 1000 in a store that holds a record of
  \<open>c0\<close> from time 100, which the pruning at time 1000 deletes.
\<close>

theorem exit_code_bookkeeping_witness:
  "fst (GetContainerExitCode (open_store (empty_db\<lparr>ContainerExitCode := [(''c0'', 100, 1)]\<rparr>) []) ''c1'')
     = Inl (ErrNoSuchExitCode ''c1'')
   \<and> fst (AddContainerExitCode True 1000
            (open_store (empty_db\<lparr>ContainerExitCode := [(''c0'', 100, 1)]\<rparr>) []) ''c1'' 137)
     = Inr ()
   \<and> fst (GetContainerExitCode
            (snd (AddContainerExitCode True 1000
                    (open_store (empty_db\<lparr>ContainerExitCode := [(''c0'', 100, 1)]\<rparr>) []) ''c1'' 137))
            ''c1'')
     = Inr 137
   \<and> fst (GetContainerExitCodeTimeStamp
            (snd (AddContainerExitCode True 1000
                    (open_store (empty_db\<lparr>ContainerExitCode := [(''c0'', 100, 1)]\<rparr>) []) ''c1'' 137))
            ''c1'')
     = Inr 1000
   \<and> database (conn (snd (PruneContainerExitCodes 1000
            (open_store (empty_db\<lparr>ContainerExitCode := [(''c0'', 100, 1)]\<rparr>) []))))
     = empty_db"
  using exit_code_bookkeeping
          [where s = "open_store (empty_db\<lparr>ContainerExitCode := [(''c0'', 100, 1)]\<rparr>) []"
             and k = "''c1''" and id_is_key = True and now = 1000 and exitCode = 137]
  by (simp add: open_store_def empty_db_def)


section \<open>Looking containers up\<close>

text \<open>
  A pattern with neither \<^verbatim>\<open>%\<close> nor \<^verbatim>\<open>_\<close> matches the strings that are equal to it
  up to the case of ASCII letters, and so none that is longer than the pattern.
\<close>

lemma sqlite_like_without_wildcards:
  "CHR ''%'' \<notin> set p \<Longrightarrow> CHR ''_'' \<notin> set p
     \<Longrightarrow> sqlite_like p s = (map ascii_upper p = map ascii_upper s)"
  by (induction p s rule: sqlite_like.induct) auto

lemma sqlite_like_proper_prefix:
  assumes "CHR ''%'' \<notin> set p" and "CHR ''_'' \<notin> set p" and "length p < length s"
  shows "\<not> sqlite_like p s"
proof -
  have "length (map ascii_upper p) \<noteq> length (map ascii_upper s)"
    using assms(3) by simp
  then have "map ascii_upper p \<noteq> map ascii_upper s" by metis
  with assms(1,2) show ?thesis by (simp add: sqlite_like_without_wildcards)
qed

text \<open>
  What \<^verbatim>\<open>LookupContainerID\<close> returns when no driver call fails: it depends on the
  number of selected rows only.
\<close>

lemma LookupContainerID_no_fault:
  assumes "valid s" and "faults (conn s) = []" and "idOrName \<noteq> []"
  shows "fst (LookupContainerID s idOrName) =
     (case name_or_id_like idOrName (database (conn s)) of
        [] \<Rightarrow> Inl ErrNoSuchCtr
      | [r] \<Rightarrow> Inr (CC_ID r)
      | _ # _ # _ \<Rightarrow> Inl (ErrCtrExists idOrName))"
  using assms
  by (simp add: LookupContainerID_def no_fault_simps compiled split: list.splits)

text \<open>
  C1 says that a lookup term matches a container whose ID has the term as a prefix:
  with containers \<open>abc123\<close> and \<open>abc456\<close>, looking up \<open>abc\<close> is ambiguous and
  looking up \<open>abc1\<close> returns the first container. The doc comments of
  \<^verbatim>\<open>LookupContainerID\<close> and \<^verbatim>\<open>LookupContainer\<close> promise the same (\<^emph>\<open>by full or unique
  partial ID or name\<close>). The statements bind the term itself as the \<^verbatim>\<open>LIKE\<close> pattern,
  with no \<^verbatim>\<open>%\<close> after it, so the pattern matches a whole ID only: both lookups
  return \<^verbatim>\<open>ErrNoSuchCtr\<close>, from either function.
\<close>

theorem LookupContainer_partial_id_not_found:
  "fst (LookupContainerID
          (open_store (empty_db
             \<lparr>ContainerConfig :=
                [\<lparr>CC_ID = ''abc123'', CC_Name = ''web'', CC_PodID = None, CC_JSON = ''{1}''\<rparr>,
                 \<lparr>CC_ID = ''abc456'', CC_Name = ''db'', CC_PodID = None, CC_JSON = ''{2}''\<rparr>]\<rparr>) [])
          ''abc'')
     = Inl ErrNoSuchCtr
   \<and> fst (LookupContainerID
          (open_store (empty_db
             \<lparr>ContainerConfig :=
                [\<lparr>CC_ID = ''abc123'', CC_Name = ''web'', CC_PodID = None, CC_JSON = ''{1}''\<rparr>,
                 \<lparr>CC_ID = ''abc456'', CC_Name = ''db'', CC_PodID = None, CC_JSON = ''{2}''\<rparr>]\<rparr>) [])
          ''abc1'')
     = Inl ErrNoSuchCtr
   \<and> fst (LookupContainer Some Inr
          (open_store (empty_db
             \<lparr>ContainerConfig :=
                [\<lparr>CC_ID = ''abc123'', CC_Name = ''web'', CC_PodID = None, CC_JSON = ''{1}''\<rparr>,
                 \<lparr>CC_ID = ''abc456'', CC_Name = ''db'', CC_PodID = None, CC_JSON = ''{2}''\<rparr>]\<rparr>) [])
          ''abc'')
     = Inl ErrNoSuchCtr
   \<and> fst (LookupContainer Some Inr
          (open_store (empty_db
             \<lparr>ContainerConfig :=
                [\<lparr>CC_ID = ''abc123'', CC_Name = ''web'', CC_PodID = None, CC_JSON = ''{1}''\<rparr>,
                 \<lparr>CC_ID = ''abc456'', CC_Name = ''db'', CC_PodID = None, CC_JSON = ''{2}''\<rparr>]\<rparr>) [])
          ''abc1'')
     = Inl ErrNoSuchCtr"
  by (simp add: LookupContainerID_def LookupContainer_def run_simps compiled name_or_id_like_def
        open_store_def empty_db_def ascii_upper_def)

text \<open>
  On the same store the full ID and the name are found, and a term that brings its
  own \<^verbatim>\<open>%\<close> is matched as a prefix: \<open>abc1%\<close> finds the first container and
  \<open>abc%\<close> is ambiguous.
\<close>

lemma LookupContainerID_full_id_or_wildcard:
  "fst (LookupContainerID
          (open_store (empty_db
             \<lparr>ContainerConfig :=
                [\<lparr>CC_ID = ''abc123'', CC_Name = ''web'', CC_PodID = None, CC_JSON = ''{1}''\<rparr>,
                 \<lparr>CC_ID = ''abc456'', CC_Name = ''db'', CC_PodID = None, CC_JSON = ''{2}''\<rparr>]\<rparr>) [])
          ''abc123'')
     = Inr ''abc123''
   \<and> fst (LookupContainerID
          (open_store (empty_db
             \<lparr>ContainerConfig :=
                [\<lparr>CC_ID = ''abc123'', CC_Name = ''web'', CC_PodID = None, CC_JSON = ''{1}''\<rparr>,
                 \<lparr>CC_ID = ''abc456'', CC_Name = ''db'', CC_PodID = None, CC_JSON = ''{2}''\<rparr>]\<rparr>) [])
          ''web'')
     = Inr ''abc123''
   \<and> fst (LookupContainerID
          (open_store (empty_db
             \<lparr>ContainerConfig :=
                [\<lparr>CC_ID = ''abc123'', CC_Name = ''web'', CC_PodID = None, CC_JSON = ''{1}''\<rparr>,
                 \<lparr>CC_ID = ''abc456'', CC_Name = ''db'', CC_PodID = None, CC_JSON = ''{2}''\<rparr>]\<rparr>) [])
          ''abc1%'')
     = Inr ''abc123''
   \<and> fst (LookupContainerID
          (open_store (empty_db
             \<lparr>ContainerConfig :=
                [\<lparr>CC_ID = ''abc123'', CC_Name = ''web'', CC_PodID = None, CC_JSON = ''{1}''\<rparr>,
                 \<lparr>CC_ID = ''abc456'', CC_Name = ''db'', CC_PodID = None, CC_JSON = ''{2}''\<rparr>]\<rparr>) [])
          ''abc%'')
     = Inl (ErrCtrExists ''abc%'')"
  by (simp add: LookupContainerID_def run_simps compiled name_or_id_like_def
        open_store_def empty_db_def ascii_upper_def)

section \<open>Refresh\<close>


lemma and_then_Inr:
  assumes "and_then m f c = (Inr b, c'')"
  obtains a c' where "m c = (Inr a, c')" and "f a c' = (Inr b, c'')"
  using assms unfolding and_then_def by (auto split: prod.splits sum.splits)

lemma rollback_on_error_Inr:
  "rollback_on_error tx m c = (Inr b, c') \<Longrightarrow> m c = (Inr b, c')"
  unfolding rollback_on_error_def by (auto split: prod.splits sum.splits)

lemma wrap_Query_Inr:
  "wrap msg (conn_Query sql sel) c = (Inr rows, c')
     \<Longrightarrow> rows = sel (database c) \<and> database c' = database c"
  unfolding wrap_def conn_Query_def driver_call_def
  by (auto split: prod.splits sum.splits if_splits bool.splits)

lemma map_put_not_empty: "map_put k v m \<noteq> []"
  by (cases m) auto

lemma reset_states_Inr:
  "reset_states msgs cd rows m c = (Inr m', c')
     \<Longrightarrow> database c' = database c \<and> (rows \<noteq> [] \<longrightarrow> m' \<noteq> []) \<and> (m \<noteq> [] \<longrightarrow> m' \<noteq> [])"
proof (induction rows arbitrary: m c)
  case Nil
  then show ?case by simp
next
  case (Cons row rows)
  from Cons.prems obtain c1 newJSON where
    scan: "rows_Scan c = (Inr (), c1)" and
    rest: "reset_states msgs cd rows (map_put (fst row) newJSON m) c1 = (Inr m', c')"
    by (auto split: prod.splits sum.splits option.splits)
  from scan have "database c1 = database c" by (rule rows_Scan_database)
  with Cons.IH [OF rest] show ?case by (simp add: map_put_not_empty)
qed

lemma write_states_rejected:
  "\<not> sqlite_prepare sql \<Longrightarrow> write_states sql msg upd m tx c = (Inr tx', c') \<Longrightarrow> m = []"
  by (cases m) (auto simp add: tx_Exec_def driver_call_def split: prod.splits sum.splits bool.splits)

text \<open>
  The shape of \<^verbatim>\<open>Refresh\<close>: three tables are read and their new states written back
  by three statements. When the engine rejects the three statements, the whole can
  only succeed if all three tables were empty.
\<close>

lemma read_then_write_rejected:
  assumes run: "and_then (wrap m1 (conn_Query s1 sel1)) (\<lambda>rows1.
     and_then (reset_states ms1 cd1 rows1 []) (\<lambda>st1.
     and_then (wrap m2 (conn_Query s2 sel2)) (\<lambda>rows2.
     and_then (reset_states ms2 cd2 rows2 []) (\<lambda>st2.
     and_then (wrap m3 (conn_Query s3 sel3)) (\<lambda>rows3.
     and_then (reset_states ms3 cd3 rows3 []) (\<lambda>st3.
     and_then begin (\<lambda>tx.
     rollback_on_error tx (
       and_then (write_states u1 n1 f1 st1 tx) (\<lambda>tx1.
       and_then (write_states u2 n2 f2 st2 tx1) (\<lambda>tx2.
       and_then (write_states u3 n3 f3 st3 tx2) (\<lambda>tx3. k tx3)))))))))))
       c = (Inr b, c')"
    and rej: "\<not> sqlite_prepare u1" "\<not> sqlite_prepare u2" "\<not> sqlite_prepare u3"
  shows "sel1 (database c) = [] \<and> sel2 (database c) = [] \<and> sel3 (database c) = []"
proof -
  from run obtain rows1 c1 where q1: "wrap m1 (conn_Query s1 sel1) c = (Inr rows1, c1)"
    and run1: "and_then (reset_states ms1 cd1 rows1 []) (\<lambda>st1.
     and_then (wrap m2 (conn_Query s2 sel2)) (\<lambda>rows2.
     and_then (reset_states ms2 cd2 rows2 []) (\<lambda>st2.
     and_then (wrap m3 (conn_Query s3 sel3)) (\<lambda>rows3.
     and_then (reset_states ms3 cd3 rows3 []) (\<lambda>st3.
     and_then begin (\<lambda>tx.
     rollback_on_error tx (
       and_then (write_states u1 n1 f1 st1 tx) (\<lambda>tx1.
       and_then (write_states u2 n2 f2 st2 tx1) (\<lambda>tx2.
       and_then (write_states u3 n3 f3 st3 tx2) (\<lambda>tx3. k tx3)))))))))) c1 = (Inr b, c')"
    by (rule and_then_Inr)
  from run1 obtain st1 c2 where r1: "reset_states ms1 cd1 rows1 [] c1 = (Inr st1, c2)"
    and run2: "and_then (wrap m2 (conn_Query s2 sel2)) (\<lambda>rows2.
     and_then (reset_states ms2 cd2 rows2 []) (\<lambda>st2.
     and_then (wrap m3 (conn_Query s3 sel3)) (\<lambda>rows3.
     and_then (reset_states ms3 cd3 rows3 []) (\<lambda>st3.
     and_then begin (\<lambda>tx.
     rollback_on_error tx (
       and_then (write_states u1 n1 f1 st1 tx) (\<lambda>tx1.
       and_then (write_states u2 n2 f2 st2 tx1) (\<lambda>tx2.
       and_then (write_states u3 n3 f3 st3 tx2) (\<lambda>tx3. k tx3))))))))) c2 = (Inr b, c')"
    by (rule and_then_Inr)
  from run2 obtain rows2 c3 where q2: "wrap m2 (conn_Query s2 sel2) c2 = (Inr rows2, c3)"
    and run3: "and_then (reset_states ms2 cd2 rows2 []) (\<lambda>st2.
     and_then (wrap m3 (conn_Query s3 sel3)) (\<lambda>rows3.
     and_then (reset_states ms3 cd3 rows3 []) (\<lambda>st3.
     and_then begin (\<lambda>tx.
     rollback_on_error tx (
       and_then (write_states u1 n1 f1 st1 tx) (\<lambda>tx1.
       and_then (write_states u2 n2 f2 st2 tx1) (\<lambda>tx2.
       and_then (write_states u3 n3 f3 st3 tx2) (\<lambda>tx3. k tx3)))))))) c3 = (Inr b, c')"
    by (rule and_then_Inr)
  from run3 obtain st2 c4 where r2: "reset_states ms2 cd2 rows2 [] c3 = (Inr st2, c4)"
    and run4: "and_then (wrap m3 (conn_Query s3 sel3)) (\<lambda>rows3.
     and_then (reset_states ms3 cd3 rows3 []) (\<lambda>st3.
     and_then begin (\<lambda>tx.
     rollback_on_error tx (
       and_then (write_states u1 n1 f1 st1 tx) (\<lambda>tx1.
       and_then (write_states u2 n2 f2 st2 tx1) (\<lambda>tx2.
       and_then (write_states u3 n3 f3 st3 tx2) (\<lambda>tx3. k tx3))))))) c4 = (Inr b, c')"
    by (rule and_then_Inr)
  from run4 obtain rows3 c5 where q3: "wrap m3 (conn_Query s3 sel3) c4 = (Inr rows3, c5)"
    and run5: "and_then (reset_states ms3 cd3 rows3 []) (\<lambda>st3.
     and_then begin (\<lambda>tx.
     rollback_on_error tx (
       and_then (write_states u1 n1 f1 st1 tx) (\<lambda>tx1.
       and_then (write_states u2 n2 f2 st2 tx1) (\<lambda>tx2.
       and_then (write_states u3 n3 f3 st3 tx2) (\<lambda>tx3. k tx3)))))) c5 = (Inr b, c')"
    by (rule and_then_Inr)
  from run5 obtain st3 c6 where r3: "reset_states ms3 cd3 rows3 [] c5 = (Inr st3, c6)"
    and run6: "and_then begin (\<lambda>tx.
     rollback_on_error tx (
       and_then (write_states u1 n1 f1 st1 tx) (\<lambda>tx1.
       and_then (write_states u2 n2 f2 st2 tx1) (\<lambda>tx2.
       and_then (write_states u3 n3 f3 st3 tx2) (\<lambda>tx3. k tx3))))) c6 = (Inr b, c')"
    by (rule and_then_Inr)
  from run6 obtain tx c7 where
    run7: "rollback_on_error tx (
       and_then (write_states u1 n1 f1 st1 tx) (\<lambda>tx1.
       and_then (write_states u2 n2 f2 st2 tx1) (\<lambda>tx2.
       and_then (write_states u3 n3 f3 st3 tx2) (\<lambda>tx3. k tx3)))) c7 = (Inr b, c')"
    by (rule and_then_Inr)
  from rollback_on_error_Inr [OF run7] obtain tx1 c8 where
    w1: "write_states u1 n1 f1 st1 tx c7 = (Inr tx1, c8)"
    and run8: "and_then (write_states u2 n2 f2 st2 tx1) (\<lambda>tx2.
       and_then (write_states u3 n3 f3 st3 tx2) (\<lambda>tx3. k tx3)) c8 = (Inr b, c')"
    by (rule and_then_Inr)
  from run8 obtain tx2 c9 where
    w2: "write_states u2 n2 f2 st2 tx1 c8 = (Inr tx2, c9)"
    and run9: "and_then (write_states u3 n3 f3 st3 tx2) (\<lambda>tx3. k tx3) c9 = (Inr b, c')"
    by (rule and_then_Inr)
  from run9 obtain tx3 c10 where
    w3: "write_states u3 n3 f3 st3 tx2 c9 = (Inr tx3, c10)"
    by (rule and_then_Inr)
  have e1: "st1 = []" using rej(1) w1 by (rule write_states_rejected)
  have e2: "st2 = []" using rej(2) w2 by (rule write_states_rejected)
  have e3: "st3 = []" using rej(3) w3 by (rule write_states_rejected)
  have d1: "rows1 = sel1 (database c)" "database c1 = database c"
    using wrap_Query_Inr [OF q1] by simp_all
  have d2: "database c2 = database c1" "rows1 = []"
    using reset_states_Inr [OF r1] e1 by auto
  have d3: "rows2 = sel2 (database c2)" "database c3 = database c2"
    using wrap_Query_Inr [OF q2] by simp_all
  have d4: "database c4 = database c3" "rows2 = []"
    using reset_states_Inr [OF r2] e2 by auto
  have d5: "rows3 = sel3 (database c4)"
    using wrap_Query_Inr [OF q3] by simp_all
  have d6: "rows3 = []"
    using reset_states_Inr [OF r3] e3 by auto
  from d1 d2 d3 d4 d5 d6 show ?thesis by simp
qed

text \<open>
  So \<^verbatim>\<open>Refresh\<close> succeeds on no store that holds a state row, whatever the states
  and whatever the driver does.
\<close>

lemma Refresh_succeeds_only_without_state_rows:
  assumes "valid s" and "Refresh cc pc vc s = (Inr u, s')"
  shows "ContainerState (database (conn s)) = []
       \<and> PodState (database (conn s)) = []
       \<and> VolumeState (database (conn s)) = []"
proof -
  obtain c where run: "refresh_conn cc pc vc (conn s) = (Inr u, c)"
    using assms by (auto simp add: Refresh_def split: prod.splits)
  show ?thesis
    by (rule read_then_write_rejected [OF run [unfolded refresh_conn_def]
          update_table_container_state_rejected update_table_pod_state_rejected
          update_table_volume_state_rejected])
qed

text \<open>
  C2 says that \<^verbatim>\<open>Refresh\<close> rewrites every state row to its reset form and empties
  the exec-session and exit-code tables. On an open store with one container state
  row, one exec session and one exit code, with no failure of the driver and states
  that decode and encode, \<^verbatim>\<open>Refresh\<close> returns the engine's syntax error for
  \<^verbatim>\<open>UPDATE TABLE ContainerState ...\<close> after six driver calls, and all three rows are
  still there.
\<close>

theorem Refresh_fails_on_a_state_row:
  "Refresh plain_codec plain_codec plain_codec
     (open_store (empty_db\<lparr>ContainerState := [(''c1'', ''{}'')],
                           ContainerExecSession := [(''e1'', ''c1'')],
                           ContainerExitCode := [(''c1'', 100, 137)]\<rparr>) [])
   = (Inl (ErrSql ''updating container state'' SyntaxError),
      \<lparr>valid = True,
        conn = \<lparr>database = empty_db\<lparr>ContainerState := [(''c1'', ''{}'')],
                                      ContainerExecSession := [(''e1'', ''c1'')],
                                      ContainerExitCode := [(''c1'', 100, 137)]\<rparr>,
                calls = 6, faults = []\<rparr>,
        runtime = example_runtime\<rparr>)"
  by (simp add: Refresh_def refresh_conn_def run_simps compiled open_store_def plain_codec_def
        update_ContainerState_def empty_db_def)

text \<open>
  \<^verbatim>\<open>SaveVolume\<close> writes with \<^verbatim>\<open>UPDATE TABLE VolumeState ...\<close> too: on a live handle
  it returns the engine's syntax error, whether the volume has a state row or not.
\<close>

lemma SaveVolume_always_rejected:
  assumes "valid s" and "vol_valid volume" and "marshalState (vol_state volume) = Some stateJSON"
      and "faults (conn s) = []"
  shows "SaveVolume marshalState s volume =
     (Inl (ErrSql ''updating volume %s state in DB'' SyntaxError),
      s\<lparr>conn := (conn s)\<lparr>calls := calls (conn s) + 2\<rparr>\<rparr>, volume)"
  using assms
  by (simp add: SaveVolume_def no_fault_simps compiled)

end
